theory Spec2Isabelle
  imports Complex_Main "HOL-Library.Word" "HOL-Library.Monad_Syntax"
begin

section \<open>JavaScript values of the DINX backend\<close>

text \<open>
  A JavaScript string is a sequence of UTF-16 code units. String literals of the source
  are written with \<open>js\<close>, which embeds an ASCII literal unit by unit; the two
  non-ASCII characters of the source, the bullet and the em dash, are given by their
  code units.
\<close>

type_synonym code_unit = "16 word"

type_synonym jsstring = "code_unit list"

definition js :: "string \<Rightarrow> jsstring" where
  "js s = map of_char s"

definition bullet :: code_unit where
  "bullet = 0x2022"

definition emdash :: code_unit where
  "emdash = 0x2014"

text \<open>
  The values that reach the code: what \<open>JSON.parse\<close> produces (request bodies,
  provider responses), together with \<open>undefined\<close> for a property that is absent.
  An object is the list of its own properties. A number is needed only for its
  truthiness and for the constant \<open>max_results: 5\<close>.
\<close>

datatype jsvalue =
    JUndefined
  | JNull
  | JBool bool
  | JNum real
  | JStr jsstring
  | JArr "jsvalue list"
  | JObj "(jsstring \<times> jsvalue) list"

text \<open>\<open>!v\<close> is \<open>\<not> truthy v\<close>.\<close>

fun truthy :: "jsvalue \<Rightarrow> bool" where
  "truthy JUndefined = False"
| "truthy JNull = False"
| "truthy (JBool b) = b"
| "truthy (JNum x) = (x \<noteq> 0)"
| "truthy (JStr s) = (s \<noteq> [])"
| "truthy (JArr xs) = True"
| "truthy (JObj kvs) = True"

fun nullish :: "jsvalue \<Rightarrow> bool" where
  "nullish JUndefined = True"
| "nullish JNull = True"
| "nullish v = False"

text \<open>
  What the source takes from the JavaScript runtime and does not define itself:
  the Unicode lower-casing of a code unit outside ASCII (given the string and the
  index of the unit, since the Unicode rules may look at the context), and the string
  conversion a template literal applies to a value that is not a string
  (\<open>None\<close>: the conversion throws).
\<close>

record runtime =
  lowerNonAscii :: "jsstring \<Rightarrow> nat \<Rightarrow> jsstring"
  toStringNonString :: "jsvalue \<Rightarrow> jsstring option"

section \<open>Deciding when to use the web: \<open>shouldUseWeb\<close>\<close>

definition asciiLower :: "code_unit \<Rightarrow> code_unit" where
  "asciiLower c = (if 0x41 \<le> c \<and> c \<le> 0x5A then c + 0x20 else c)"

definition lowerAt :: "runtime \<Rightarrow> jsstring \<Rightarrow> nat \<Rightarrow> jsstring" where
  "lowerAt rt s i = (if s ! i < 0x80 then [asciiLower (s ! i)] else lowerNonAscii rt s i)"

text \<open>\<open>String.prototype.toLowerCase\<close>: every index read is below the length.\<close>

definition toLowerCase :: "runtime \<Rightarrow> jsstring \<Rightarrow> jsstring" where
  "toLowerCase rt s = concat (map (lowerAt rt s) [0..<length s])"

fun startsWith :: "jsstring \<Rightarrow> jsstring \<Rightarrow> bool" where
  "startsWith text [] = True"
| "startsWith [] (w # ws) = False"
| "startsWith (c # cs) (w # ws) = (c = w \<and> startsWith cs ws)"

text \<open>\<open>text.includes(word)\<close> (named \<open>includesStr\<close> here): the word occurs at some position of the text.\<close>

fun includesStr :: "jsstring \<Rightarrow> jsstring \<Rightarrow> bool" where
  "includesStr [] word = (word = [])"
| "includesStr (c # cs) word = (startsWith (c # cs) word \<or> includesStr cs word)"

definition triggers :: "jsstring list" where
  "triggers = map js
     [''latest'', ''today'', ''current'', ''news'', ''right now'', ''price of'', ''stock'',
      ''weather'', ''live'', ''update'', ''who is'', ''what is'', ''search'',
      ''on the internet'']"

text \<open>
  \<open>shouldUseWeb(message)\<close>. The result is \<open>None\<close> when the call throws: a truthy
  value that is not a string has no callable \<open>toLowerCase\<close>.
\<close>

definition shouldUseWeb :: "runtime \<Rightarrow> jsvalue \<Rightarrow> bool option" where
  "shouldUseWeb rt message =
     (if \<not> truthy message then Some False
      else case message of
          JStr s \<Rightarrow>
            (let text = toLowerCase rt s
             in Some (list_ex (\<lambda>word. includesStr text word) triggers))
        | _ \<Rightarrow> None)"

section \<open>Property access\<close>

text \<open>
  \<open>v.k\<close> for the property names this file reads (\<open>answer\<close>, \<open>results\<close>,
  \<open>title\<close>, \<open>url\<close>, \<open>content\<close>, \<open>choices\<close>, \<open>message\<close>, \<open>model\<close>,
  \<open>system\<close>), none of which is a built-in property of a string, an array, a number
  or a boolean: an object yields its own property, every other value that is not
  \<open>undefined\<close> or \<open>null\<close> yields \<open>undefined\<close>.
\<close>

fun getMember :: "jsvalue \<Rightarrow> jsstring \<Rightarrow> jsvalue" where
  "getMember (JObj kvs) k = (case map_of kvs k of Some v \<Rightarrow> v | None \<Rightarrow> JUndefined)"
| "getMember v k = JUndefined"

text \<open>Reading a property of \<open>undefined\<close> or \<open>null\<close> throws (\<open>None\<close>).\<close>

definition getProp :: "jsvalue \<Rightarrow> jsstring \<Rightarrow> jsvalue option" where
  "getProp v k = (if nullish v then None else Some (getMember v k))"

text \<open>\<open>v[0]\<close> on a value that is not \<open>undefined\<close> or \<open>null\<close>.\<close>

fun index0 :: "jsvalue \<Rightarrow> jsvalue" where
  "index0 (JArr xs) = (case xs of [] \<Rightarrow> JUndefined | x # rest \<Rightarrow> x)"
| "index0 (JStr s) = (case s of [] \<Rightarrow> JUndefined | c # rest \<Rightarrow> JStr [c])"
| "index0 (JObj kvs) = (case map_of kvs (js ''0'') of Some v \<Rightarrow> v | None \<Rightarrow> JUndefined)"
| "index0 v = JUndefined"

text \<open>Optional chaining: \<open>v?.k\<close> and \<open>v?.[0]\<close>.\<close>

definition optMember :: "jsvalue \<Rightarrow> jsstring \<Rightarrow> jsvalue" where
  "optMember v k = (if nullish v then JUndefined else getMember v k)"

definition optIndex0 :: "jsvalue \<Rightarrow> jsvalue" where
  "optIndex0 v = (if nullish v then JUndefined else index0 v)"

text \<open>The string a template literal inserts for \<open>${v}\<close>.\<close>

definition template :: "runtime \<Rightarrow> jsvalue \<Rightarrow> jsstring option" where
  "template rt v = (case v of JStr s \<Rightarrow> Some s | _ \<Rightarrow> toStringNonString rt v)"

section \<open>The outbound calls\<close>

text \<open>
  \<open>fetch(url, {method, headers, body})\<close>: the body is kept as the value handed to
  \<open>JSON.stringify\<close>. The awaited call either rejects or resolves to a response, of
  which the code reads \<open>ok\<close>, \<open>await text()\<close> and \<open>await json()\<close> (\<open>None\<close>: that
  promise rejects). The providers are a parameter: a function from the request to
  what comes back. Each handler run records the calls it starts and the moment the
  awaited call settles.
\<close>

record request =
  req_url :: jsstring
  req_method :: jsstring
  req_headers :: "(jsstring \<times> jsstring) list"
  req_body :: jsvalue

record response =
  resp_ok :: bool
  resp_text :: "jsstring option"
  resp_json :: "jsvalue option"

datatype fetch_outcome = Rejects | Resolves response

type_synonym network = "request \<Rightarrow> fetch_outcome"

datatype event = Sent request | Settled request

text \<open>
  The two secrets read from the environment at start-up; \<open>None\<close> is an unset
  variable. \<open>LLM_API_KEY\<close> is \<open>GROQ_API_KEY\<close> in \<open>server.js\<close>.
\<close>

record env =
  LLM_API_KEY :: "jsstring option"
  TAVILY_API_KEY :: "jsstring option"

section \<open>Tavily web search: \<open>searchWebWithTavily\<close>\<close>

fun join :: "jsstring \<Rightarrow> jsstring list \<Rightarrow> jsstring" where
  "join sep [] = []"
| "join sep [x] = x"
| "join sep (x # y # ys) = x @ sep @ join sep (y # ys)"

text \<open>The callback of \<open>.map\<close>: one result as a bullet line and its content.\<close>

definition renderResult :: "runtime \<Rightarrow> jsvalue \<Rightarrow> jsstring option" where
  "renderResult rt r = do {
     title \<leftarrow> getProp r (js ''title'');
     t \<leftarrow> template rt title;
     url \<leftarrow> getProp r (js ''url'');
     u \<leftarrow> template rt url;
     content \<leftarrow> getProp r (js ''content'');
     c \<leftarrow> template rt content;
     Some (bullet # js '' '' @ t @ js '' '' @ emdash # js '' '' @ u @ js ''\<newline>'' @ c)
   }"

text \<open>
  \<open>x.slice(0, 3)\<close> followed by \<open>.map\<close>: only an array has both; on a string
  \<open>slice\<close> yields a string, which has no \<open>map\<close>, and any other value has no
  callable \<open>slice\<close>.
\<close>

definition slice03 :: "jsvalue \<Rightarrow> jsvalue list option" where
  "slice03 x = (case x of JArr xs \<Rightarrow> Some (take 3 xs) | _ \<Rightarrow> None)"

text \<open>Lines 91 to 100: the context string built from the parsed response.\<close>

definition formatContext :: "runtime \<Rightarrow> jsvalue \<Rightarrow> jsstring option" where
  "formatContext rt data = do {
     a \<leftarrow> getProp data (js ''answer'');
     answer \<leftarrow> (if truthy a
                then do { s \<leftarrow> template rt a;
                          Some (js ''Answer: '' @ s @ js ''\<newline>\<newline>'') }
                else Some []);
     rs \<leftarrow> getProp data (js ''results'');
     sliced \<leftarrow> slice03 (if truthy rs then rs else JArr []);
     rendered \<leftarrow> those (map (renderResult rt) sliced);
     Some (answer @ join (js ''\<newline>\<newline>'') rendered)
   }"

definition tavilyRequest :: "jsstring \<Rightarrow> jsvalue \<Rightarrow> request" where
  "tavilyRequest key query =
     \<lparr> req_url = js ''https://api.tavily.com/search'',
       req_method = js ''POST'',
       req_headers = [(js ''Content-Type'', js ''application/json'')],
       req_body = JObj [(js ''api_key'', JStr key), (js ''query'', query),
                        (js ''search_depth'', JStr (js ''basic'')),
                        (js ''max_results'', JNum 5), (js ''include_answer'', JBool True)] \<rparr>"

text \<open>The \<open>try\<close> block: \<open>None\<close> when something in it throws. Console output is left out.\<close>

definition searchTry :: "runtime \<Rightarrow> network \<Rightarrow> jsstring \<Rightarrow> jsvalue \<Rightarrow> jsstring option \<times> event list" where
  "searchTry rt net key query =
     (let req = tavilyRequest key query
      in ((case net req of
             Rejects \<Rightarrow> None
           | Resolves response \<Rightarrow>
               if \<not> resp_ok response
               then (case resp_text response of None \<Rightarrow> None | Some errText \<Rightarrow> Some [])
               else (case resp_json response of None \<Rightarrow> None
                     | Some data \<Rightarrow> formatContext rt data)),
          [Sent req, Settled req]))"

text \<open>
  The whole function, with its \<open>catch\<close>. The first component is what the caller
  gets: \<open>Some\<close> of the returned string, \<open>None\<close> if the call raised.
\<close>

definition searchWebWithTavily ::
    "env \<Rightarrow> runtime \<Rightarrow> network \<Rightarrow> jsvalue \<Rightarrow> jsstring option \<times> event list" where
  "searchWebWithTavily ev rt net query =
     (case TAVILY_API_KEY ev of
        None \<Rightarrow> (Some [], [])
      | Some key \<Rightarrow>
          if key = [] then (Some [], [])
          else (case searchTry rt net key query of
                  (None, tr) \<Rightarrow> (Some [], tr)
                | (Some context, tr) \<Rightarrow> (Some context, tr)))"

section \<open>The chat endpoint: \<open>app.post('/api/chat')\<close>\<close>

text \<open>
  The second source file is the same handler for another provider. The two differ in
  the endpoint, in two error texts and in the \<open>model\<close> field of the request, which in
  the second file is \<open>model || 'deepseek-chat'\<close>.
\<close>

record variant =
  llm_url :: jsstring
  key_missing :: jsstring
  api_error :: jsstring
  model_fallback :: "jsvalue option"

definition server_js :: variant where
  "server_js =
     \<lparr> llm_url = js ''https://api.groq.com/openai/v1/chat/completions'',
       key_missing = js ''GROQ_API_KEY not set on server.'',
       api_error = js ''Groq API error'',
       model_fallback = None \<rparr>"

definition part_000 :: variant where
  "part_000 =
     \<lparr> llm_url = js ''https://api.deepseek.com/chat/completions'',
       key_missing = js ''DEEPSEEK_API_KEY not set on server.'',
       api_error = js ''DeepSeek API error'',
       model_fallback = Some (JStr (js ''deepseek-chat'')) \<rparr>"

record http_response =
  status :: nat
  payload :: jsvalue

definition systemPrompt :: jsstring where
  "systemPrompt = js ''You are DINX, a precise, helpful design assistant. Use web context if provided, and say when information may be out of date.''"

definition webPrefix :: jsstring where
  "webPrefix = js ''Here is information from a live web search. Use it carefully in your answer:\<newline>\<newline>''"

definition chatMessage :: "jsstring \<Rightarrow> jsvalue \<Rightarrow> jsvalue" where
  "chatMessage role content = JObj [(js ''role'', JStr role), (js ''content'', content)]"

text \<open>Lines 128 to 147: the message list.\<close>

definition buildMessages :: "jsvalue \<Rightarrow> jsstring \<Rightarrow> jsvalue \<Rightarrow> jsvalue list" where
  "buildMessages system webInfo message =
     [chatMessage (js ''system'') (if truthy system then system else JStr systemPrompt)]
     @ (if webInfo \<noteq> []
        then [chatMessage (js ''system'') (JStr (webPrefix @ webInfo))]
        else [])
     @ [chatMessage (js ''user'') message]"

definition llmRequest :: "variant \<Rightarrow> jsstring \<Rightarrow> jsvalue \<Rightarrow> jsvalue list \<Rightarrow> request" where
  "llmRequest V key model messages =
     \<lparr> req_url = llm_url V,
       req_method = js ''POST'',
       req_headers = [(js ''Content-Type'', js ''application/json''),
                      (js ''Authorization'', js ''Bearer '' @ key)],
       req_body = JObj [(js ''model'',
                           (case model_fallback V of
                              None \<Rightarrow> model
                            | Some d \<Rightarrow> if truthy model then model else d)),
                        (js ''messages'', JArr messages)] \<rparr>"

text \<open>\<open>data.choices?.[0]?.message?.content || 'No reply from model.'\<close>\<close>

definition replyOf :: "jsvalue \<Rightarrow> jsvalue option" where
  "replyOf data = do {
     choices \<leftarrow> getProp data (js ''choices'');
     let content = optMember (optMember (optIndex0 choices) (js ''message'')) (js ''content'');
     Some (if truthy content then content else JStr (js ''No reply from model.''))
   }"

text \<open>
  Lines 165 to 175: the response built from what the awaited completion call yields;
  \<open>None\<close> when it throws (the call is rejected, or reading the body fails, or
  \<open>data\<close> is \<open>null\<close>).
\<close>

definition llmResult :: "variant \<Rightarrow> fetch_outcome \<Rightarrow> http_response option" where
  "llmResult V outcome =
     (case outcome of
        Rejects \<Rightarrow> None
      | Resolves llmRes \<Rightarrow>
          if \<not> resp_ok llmRes then
            (case resp_text llmRes of
               None \<Rightarrow> None
             | Some errorText \<Rightarrow>
                 Some \<lparr> status = 500,
                        payload = JObj [(js ''error'', JStr (api_error V)),
                                        (js ''details'', JStr errorText)] \<rparr>)
          else
            (case resp_json llmRes of
               None \<Rightarrow> None
             | Some data \<Rightarrow>
                 (case replyOf data of
                    None \<Rightarrow> None
                  | Some reply \<Rightarrow>
                      Some \<lparr> status = 200, payload = JObj [(js ''reply'', reply)] \<rparr>)))"

text \<open>
  The \<open>try\<close> block of the handler: \<open>None\<close> when something in it throws. Destructuring
  \<open>req.body\<close> throws when the body is \<open>undefined\<close> or \<open>null\<close>. Console output is
  not part of the model.
\<close>

definition chatTry ::
    "variant \<Rightarrow> env \<Rightarrow> runtime \<Rightarrow> network \<Rightarrow> jsvalue \<Rightarrow> http_response option \<times> event list" where
  "chatTry V ev rt net reqBody =
     (if nullish reqBody then (None, [])
      else
        let model = getMember reqBody (js ''model'');
            system = getMember reqBody (js ''system'');
            message = getMember reqBody (js ''message'')
        in case LLM_API_KEY ev of
             None \<Rightarrow>
               (Some \<lparr> status = 500, payload = JObj [(js ''error'', JStr (key_missing V))] \<rparr>, [])
           | Some key \<Rightarrow>
               if key = [] then
                 (Some \<lparr> status = 500, payload = JObj [(js ''error'', JStr (key_missing V))] \<rparr>, [])
               else if \<not> truthy model \<or> \<not> truthy message then
                 (Some \<lparr> status = 400,
                         payload = JObj [(js ''error'', JStr (js ''model and message are required.''))] \<rparr>,
                  [])
               else
                 (case shouldUseWeb rt message of
                    None \<Rightarrow> (None, [])
                  | Some useWeb \<Rightarrow>
                      (case (if useWeb then searchWebWithTavily ev rt net message
                             else (Some [], [])) of
                         (None, tr) \<Rightarrow> (None, tr)
                       | (Some webInfo, tr) \<Rightarrow>
                           let req = llmRequest V key model (buildMessages system webInfo message)
                           in (llmResult V (net req), tr @ [Sent req, Settled req]))))"

text \<open>The response of the outer \<open>catch\<close>.\<close>

definition serverError :: http_response where
  "serverError =
     \<lparr> status = 500, payload = JObj [(js ''error'', JStr (js ''Server error talking to LLM.''))] \<rparr>"

text \<open>The handler with its \<open>catch\<close>: the response sent and the outbound calls made.\<close>

definition api_chat ::
    "variant \<Rightarrow> env \<Rightarrow> runtime \<Rightarrow> network \<Rightarrow> jsvalue \<Rightarrow> http_response \<times> event list" where
  "api_chat V ev rt net reqBody =
     (case chatTry V ev rt net reqBody of
        (None, tr) \<Rightarrow> (serverError, tr)
      | (Some res, tr) \<Rightarrow> (res, tr))"

section \<open>The second source file\<close>

text \<open>
  \<open>shouldUseWeb\<close> and \<open>searchWebWithTavily\<close> as the second source file
  (\<open>unnamed/part_000\<close>) writes them, transcribed from that file on their own.
\<close>

definition triggers_part_000 :: "jsstring list" where
  "triggers_part_000 = map js
     [''latest'', ''today'', ''current'', ''news'', ''right now'', ''price of'', ''stock'',
      ''weather'', ''live'', ''update'', ''who is'', ''what is'', ''search'',
      ''on the internet'']"

definition shouldUseWeb_part_000 :: "runtime \<Rightarrow> jsvalue \<Rightarrow> bool option" where
  "shouldUseWeb_part_000 rt message =
     (if \<not> truthy message then Some False
      else case message of
          JStr s \<Rightarrow>
            (let text = toLowerCase rt s
             in Some (list_ex (\<lambda>word. includesStr text word) triggers_part_000))
        | _ \<Rightarrow> None)"

definition renderResult_part_000 :: "runtime \<Rightarrow> jsvalue \<Rightarrow> jsstring option" where
  "renderResult_part_000 rt r = do {
     title \<leftarrow> getProp r (js ''title'');
     t \<leftarrow> template rt title;
     url \<leftarrow> getProp r (js ''url'');
     u \<leftarrow> template rt url;
     content \<leftarrow> getProp r (js ''content'');
     c \<leftarrow> template rt content;
     Some (bullet # js '' '' @ t @ js '' '' @ emdash # js '' '' @ u @ js ''\<newline>'' @ c)
   }"

definition formatContext_part_000 :: "runtime \<Rightarrow> jsvalue \<Rightarrow> jsstring option" where
  "formatContext_part_000 rt data = do {
     a \<leftarrow> getProp data (js ''answer'');
     answer \<leftarrow> (if truthy a
                then do { s \<leftarrow> template rt a;
                          Some (js ''Answer: '' @ s @ js ''\<newline>\<newline>'') }
                else Some []);
     rs \<leftarrow> getProp data (js ''results'');
     sliced \<leftarrow> slice03 (if truthy rs then rs else JArr []);
     rendered \<leftarrow> those (map (renderResult_part_000 rt) sliced);
     Some (answer @ join (js ''\<newline>\<newline>'') rendered)
   }"

definition searchTry_part_000 ::
    "runtime \<Rightarrow> network \<Rightarrow> jsstring \<Rightarrow> jsvalue \<Rightarrow> jsstring option \<times> event list" where
  "searchTry_part_000 rt net key query =
     (let req = tavilyRequest key query
      in ((case net req of
             Rejects \<Rightarrow> None
           | Resolves response \<Rightarrow>
               if \<not> resp_ok response
               then (case resp_text response of None \<Rightarrow> None | Some errText \<Rightarrow> Some [])
               else (case resp_json response of None \<Rightarrow> None
                     | Some data \<Rightarrow> formatContext_part_000 rt data)),
          [Sent req, Settled req]))"

definition searchWebWithTavily_part_000 ::
    "env \<Rightarrow> runtime \<Rightarrow> network \<Rightarrow> jsvalue \<Rightarrow> jsstring option \<times> event list" where
  "searchWebWithTavily_part_000 ev rt net query =
     (case TAVILY_API_KEY ev of
        None \<Rightarrow> (Some [], [])
      | Some key \<Rightarrow>
          if key = [] then (Some [], [])
          else (case searchTry_part_000 rt net key query of
                  (None, tr) \<Rightarrow> (Some [], tr)
                | (Some context, tr) \<Rightarrow> (Some context, tr)))"

section \<open>Sample inputs\<close>

text \<open>
  A runtime that leaves code units outside ASCII unchanged and converts no value
  that is not a string; the provider response of the specification's example; a
  network whose search provider returns it and whose completion provider returns a
  reply.
\<close>

definition sample_runtime :: runtime where
  "sample_runtime = \<lparr> lowerNonAscii = (\<lambda>s i. [s ! i]), toStringNonString = (\<lambda>v. None) \<rparr>"

definition sample_data :: jsvalue where
  "sample_data =
     JObj [(js ''answer'', JStr (js ''A'')),
           (js ''results'',
            JArr [JObj [(js ''title'', JStr (js ''T1'')), (js ''url'', JStr (js ''U1'')),
                        (js ''content'', JStr (js ''C1''))],
                  JObj [(js ''title'', JStr (js ''T2'')), (js ''url'', JStr (js ''U2'')),
                        (js ''content'', JStr (js ''C2''))]])]"

definition sample_env :: env where
  "sample_env = \<lparr> LLM_API_KEY = Some (js ''llm-key''), TAVILY_API_KEY = Some (js ''search-key'') \<rparr>"

text \<open>
  The response shape the search provider documents, as a value: an optional
  \<open>answer\<close> string and an optional \<open>results\<close> array of objects with the string
  fields \<open>title\<close>, \<open>url\<close> and \<open>content\<close>.
\<close>

definition resultObj :: "jsstring \<times> jsstring \<times> jsstring \<Rightarrow> jsvalue" where
  "resultObj r = (case r of (title, url, content) \<Rightarrow>
     JObj [(js ''title'', JStr title), (js ''url'', JStr url), (js ''content'', JStr content)])"

definition searchData ::
    "jsstring option \<Rightarrow> (jsstring \<times> jsstring \<times> jsstring) list option \<Rightarrow> jsvalue" where
  "searchData answer results =
     JObj ((case answer of None \<Rightarrow> [] | Some a \<Rightarrow> [(js ''answer'', JStr a)])
           @ (case results of None \<Rightarrow> []
              | Some rs \<Rightarrow> [(js ''results'', JArr (map resultObj rs))]))"

text \<open>A network that answers the search endpoint with one response and any other with another.\<close>

definition sample_network :: "response \<Rightarrow> response \<Rightarrow> network" where
  "sample_network searchRes llmRes req =
     (if req_url req = js ''https://api.tavily.com/search'' then Resolves searchRes
      else Resolves llmRes)"

definition sample_reply :: response where
  "sample_reply =
     \<lparr> resp_ok = True, resp_text = None,
       resp_json = Some (JObj [(js ''choices'',
          JArr [JObj [(js ''message'', JObj [(js ''content'', JStr (js ''Hello.''))])]])]) \<rparr>"

section \<open>Properties of \<open>shouldUseWeb\<close>\<close>

lemma startsWith_iff: "startsWith hay word \<longleftrightarrow> (\<exists>ss. hay = word @ ss)"
  by (induction hay word rule: startsWith.induct) auto

lemma includes_iff: "includesStr hay word \<longleftrightarrow> (\<exists>ps ss. hay = ps @ word @ ss)"
proof (induction hay)
  case Nil
  then show ?case by auto
next
  case (Cons c cs)
  show ?case
  proof
    assume "includesStr (c # cs) word"
    then consider "startsWith (c # cs) word" | "includesStr cs word" by auto
    then show "\<exists>ps ss. c # cs = ps @ word @ ss"
    proof cases
      case 1
      then obtain ss where "c # cs = word @ ss" by (auto simp: startsWith_iff)
      then have "c # cs = [] @ word @ ss" by simp
      then show ?thesis by blast
    next
      case 2
      then obtain ps ss where "cs = ps @ word @ ss" using Cons.IH by blast
      then have "c # cs = (c # ps) @ word @ ss" by simp
      then show ?thesis by blast
    qed
  next
    assume "\<exists>ps ss. c # cs = ps @ word @ ss"
    then obtain ps ss where eq: "c # cs = ps @ word @ ss" by blast
    show "includesStr (c # cs) word"
    proof (cases ps)
      case Nil
      with eq have "startsWith (c # cs) word" by (auto simp: startsWith_iff)
      then show ?thesis by simp
    next
      case (Cons p ps')
      with eq have "cs = ps' @ word @ ss" by simp
      then have "includesStr cs word" using Cons.IH by blast
      then show ?thesis by simp
    qed
  qed
qed

lemma asciiLower_ascii: "asciiLower c < 0x80 \<Longrightarrow> c < 0x80"
proof (cases "0x41 \<le> c \<and> c \<le> 0x5A")
  case True
  then have "c \<le> 0x5A" by simp
  moreover have "(0x5A :: code_unit) < 0x80" by simp
  ultimately show ?thesis by (rule order_le_less_trans)
next
  case False
  assume "asciiLower c < 0x80"
  with False show ?thesis by (auto simp add: asciiLower_def)
qed

lemma triggers_ascii_all: "\<forall>word\<in>set triggers. \<forall>c\<in>set word. c < 0x80"
  by (simp add: triggers_def js_def)

lemma triggers_nonempty: "[] \<notin> set triggers"
  by (simp add: triggers_def js_def)

lemma concat_singletons_shift:
  "concat (map (\<lambda>i. [f (u ! (i - k))]) [k..<k + length u]) = map f u"
proof -
  have "map (\<lambda>i. f (u ! (i - k))) [k..<k + length u]
      = map (\<lambda>i. f (u ! (i - k))) (map (\<lambda>i. i + k) [0..<length u])"
    by (simp add: map_add_upt add.commute)
  also have "\<dots> = map (\<lambda>i. f (u ! i)) [0..<length u]" by (simp add: comp_def)
  also have "\<dots> = map f u" by (rule nth_equalityI) simp_all
  finally have "map (\<lambda>i. f (u ! (i - k))) [k..<k + length u] = map f u" .
  moreover have "concat (map (\<lambda>i. [f (u ! (i - k))]) [k..<k + length u])
      = map (\<lambda>i. f (u ! (i - k))) [k..<k + length u]"
    by (induction "[k..<k + length u]") auto
  ultimately show ?thesis by simp
qed

text \<open>
  Lower-casing acts unit by unit on an ASCII stretch of a string, whatever surrounds it.
\<close>

lemma toLowerCase_ascii_part:
  assumes "\<forall>c\<in>set u. c < 0x80"
  shows "\<exists>a b. toLowerCase rt (ps @ u @ ss) = a @ map asciiLower u @ b"
proof -
  let ?s = "ps @ u @ ss"
  let ?k = "length ps"
  have split: "[0..<length ?s] = [0..<?k] @ [?k..<?k + length u] @ [?k + length u..<length ?s]"
  proof -
    have "[0..<length ?s] = [0..<(?k + length u) + length ss]" by (simp add: add.assoc)
    also have "\<dots> = [0..<?k + length u] @ [?k + length u..<(?k + length u) + length ss]"
      by (rule upt_add_eq_append) simp
    also have "[0..<?k + length u] = [0..<?k] @ [?k..<?k + length u]"
      by (rule upt_add_eq_append) simp
    finally show ?thesis by (simp add: add.assoc)
  qed
  have mid: "map (lowerAt rt ?s) [?k..<?k + length u]
      = map (\<lambda>i. [asciiLower (u ! (i - ?k))]) [?k..<?k + length u]"
  proof (rule map_cong[OF refl])
    fix i assume "i \<in> set [?k..<?k + length u]"
    then have i: "?k \<le> i" "i - ?k < length u" by auto
    then have nth: "?s ! i = u ! (i - ?k)" by (simp add: nth_append)
    from i have "u ! (i - ?k) \<in> set u" by simp
    with assms have "u ! (i - ?k) < 0x80" by blast
    with nth show "lowerAt rt ?s i = [asciiLower (u ! (i - ?k))]" by (simp add: lowerAt_def)
  qed
  have "toLowerCase rt ?s =
      concat (map (lowerAt rt ?s) [0..<?k]) @ concat (map (lowerAt rt ?s) [?k..<?k + length u])
        @ concat (map (lowerAt rt ?s) [?k + length u..<length ?s])"
    unfolding toLowerCase_def by (subst split) simp
  also have "concat (map (lowerAt rt ?s) [?k..<?k + length u]) = map asciiLower u"
    unfolding mid by (rule concat_singletons_shift)
  finally show ?thesis by blast
qed

lemma shouldUseWeb_string:
  "shouldUseWeb rt (JStr s)
     = Some (\<exists>word\<in>set triggers. \<exists>ps ss. toLowerCase rt s = ps @ word @ ss)"
proof (cases "s = []")
  case True
  then have "toLowerCase rt s = []" by (simp add: toLowerCase_def)
  with True triggers_nonempty show ?thesis by (auto simp: shouldUseWeb_def)
next
  case False
  then show ?thesis
    by (simp add: shouldUseWeb_def list_ex_iff includes_iff)
qed

lemma shouldUseWeb_hit:
  assumes "word \<in> set triggers" and "map asciiLower u = word"
  shows "shouldUseWeb rt (JStr (ps @ u @ ss)) = Some True"
proof -
  have "\<forall>c\<in>set u. c < 0x80"
  proof
    fix c assume "c \<in> set u"
    then have "asciiLower c \<in> set word" using assms(2) by auto
    with assms(1) triggers_ascii_all have "asciiLower c < 0x80" by blast
    then show "c < 0x80" by (rule asciiLower_ascii)
  qed
  then obtain a b where "toLowerCase rt (ps @ u @ ss) = a @ map asciiLower u @ b"
    using toLowerCase_ascii_part by blast
  with assms show ?thesis unfolding shouldUseWeb_string by auto
qed

lemma shouldUseWeb_part_000_eq: "shouldUseWeb_part_000 rt message = shouldUseWeb rt message"
proof -
  have "triggers_part_000 = triggers" by (simp only: triggers_part_000_def triggers_def)
  then show ?thesis by (simp only: shouldUseWeb_part_000_def shouldUseWeb_def)
qed

text \<open>
  Claim C1. \<open>shouldUseWeb\<close> returns false for an absent (\<open>undefined\<close>, \<open>null\<close>) or
  empty message. For a message string it returns true exactly when the lower-cased
  message contains one of the fourteen trigger substrings at some position, so false
  when it contains none; the function of the second source file does the same. In
  particular a trigger written in any mix of upper and lower case, anywhere in the
  message, yields true.
\<close>

theorem shouldUseWeb_triggers:
  "shouldUseWeb rt JUndefined = Some False \<and>
   shouldUseWeb rt JNull = Some False \<and>
   shouldUseWeb rt (JStr []) = Some False \<and>
   (\<forall>s. shouldUseWeb rt (JStr s)
          = Some (\<exists>word\<in>set triggers. \<exists>ps ss. toLowerCase rt s = ps @ word @ ss)) \<and>
   (\<forall>s. shouldUseWeb_part_000 rt (JStr s)
          = Some (\<exists>word\<in>set triggers. \<exists>ps ss. toLowerCase rt s = ps @ word @ ss)) \<and>
   (\<forall>word\<in>set triggers. \<forall>u ps ss.
        map asciiLower u = word \<longrightarrow> shouldUseWeb rt (JStr (ps @ u @ ss)) = Some True) \<and>
   triggers = map js [''latest'', ''today'', ''current'', ''news'', ''right now'', ''price of'',
        ''stock'', ''weather'', ''live'', ''update'', ''who is'', ''what is'', ''search'',
        ''on the internet'']"
proof -
  have "shouldUseWeb rt JUndefined = Some False" by (simp add: shouldUseWeb_def)
  moreover have "shouldUseWeb rt JNull = Some False" by (simp add: shouldUseWeb_def)
  moreover have "shouldUseWeb rt (JStr []) = Some False" by (simp add: shouldUseWeb_def)
  moreover have "\<forall>s. shouldUseWeb rt (JStr s)
          = Some (\<exists>word\<in>set triggers. \<exists>ps ss. toLowerCase rt s = ps @ word @ ss)"
    using shouldUseWeb_string by blast
  moreover have "\<forall>s. shouldUseWeb_part_000 rt (JStr s)
          = Some (\<exists>word\<in>set triggers. \<exists>ps ss. toLowerCase rt s = ps @ word @ ss)"
    by (simp only: shouldUseWeb_part_000_eq shouldUseWeb_string) simp
  moreover have "\<forall>word\<in>set triggers. \<forall>u ps ss.
        map asciiLower u = word \<longrightarrow> shouldUseWeb rt (JStr (ps @ u @ ss)) = Some True"
    using shouldUseWeb_hit by blast
  moreover note triggers_def
  ultimately show ?thesis by blast
qed

theorem shouldUseWeb_triggers_witness:
  "js ''news'' \<in> set triggers \<and>
   map asciiLower (js ''NeWS'') = js ''news'' \<and>
   shouldUseWeb sample_runtime (JStr (js ''Any '' @ js ''NeWS'' @ js ''?'')) = Some True \<and>
   shouldUseWeb sample_runtime (JStr (js ''hello there'')) = Some False"
proof -
  have mem: "js ''news'' \<in> set triggers" by (simp add: triggers_def js_def)
  have low: "map asciiLower (js ''NeWS'') = js ''news''" by (simp add: asciiLower_def js_def)
  from shouldUseWeb_triggers [of sample_runtime]
  have hit: "\<forall>word\<in>set triggers. \<forall>u ps ss.
        map asciiLower u = word \<longrightarrow> shouldUseWeb sample_runtime (JStr (ps @ u @ ss)) = Some True"
    by blast
  from hit mem low
  have "shouldUseWeb sample_runtime (JStr (js ''Any '' @ js ''NeWS'' @ js ''?'')) = Some True"
    by blast
  moreover have "shouldUseWeb sample_runtime (JStr (js ''hello there'')) = Some False"
    by (simp add: shouldUseWeb_def toLowerCase_def lowerAt_def asciiLower_def js_def
        triggers_def sample_runtime_def upt_rec)
  ultimately show ?thesis using mem low by blast
qed

section \<open>Properties of \<open>searchWebWithTavily\<close>\<close>

lemma renderResult_resultObj:
  "renderResult rt (resultObj (t, u, c))
     = Some (bullet # js '' '' @ t @ js '' '' @ emdash # js '' '' @ u @ js ''\<newline>'' @ c)"
  by (simp add: renderResult_def resultObj_def getProp_def template_def js_def)

lemma those_map_Some: "those (map (\<lambda>x. Some (f x)) xs) = Some (map f xs)"
  by (induction xs) simp_all

lemma those_render:
  "those (map (renderResult rt) (map resultObj rs))
     = Some (map (\<lambda>(t, u, c). bullet # js '' '' @ t @ js '' '' @ emdash # js '' '' @ u
                     @ js ''\<newline>'' @ c) rs)"
proof -
  have "map (renderResult rt) (map resultObj rs)
      = map (\<lambda>r. Some ((\<lambda>(t, u, c). bullet # js '' '' @ t @ js '' '' @ emdash # js '' '' @ u
                     @ js ''\<newline>'' @ c) r)) rs"
    by (auto simp: renderResult_resultObj)
  then show ?thesis by (simp only: those_map_Some)
qed

lemma formatContext_object:
  assumes "those (map (renderResult rt) (take 3 xs)) = Some rendered"
  shows "formatContext rt
           (JObj ((case answer of None \<Rightarrow> [] | Some a \<Rightarrow> [(js ''answer'', JStr a)])
                  @ (case results of None \<Rightarrow> [] | Some u \<Rightarrow> [(js ''results'', JArr xs)])))
     = Some ((case answer of None \<Rightarrow> []
              | Some a \<Rightarrow> if a = [] then [] else js ''Answer: '' @ a @ js ''\<newline>\<newline>'')
             @ join (js ''\<newline>\<newline>'') (case results of None \<Rightarrow> [] | Some u \<Rightarrow> rendered))"
proof -
  have k: "js ''results'' \<noteq> js ''answer''" by (simp add: js_def)
  show ?thesis
    using assms k
    by (cases answer; cases results)
       (simp_all add: formatContext_def getProp_def template_def slice03_def)
qed

lemma formatContext_searchData:
  "formatContext rt (searchData answer results)
     = Some ((case answer of None \<Rightarrow> []
              | Some a \<Rightarrow> if a = [] then [] else js ''Answer: '' @ a @ js ''\<newline>\<newline>'')
             @ join (js ''\<newline>\<newline>'')
                 (map (\<lambda>(t, u, c). bullet # js '' '' @ t @ js '' '' @ emdash # js '' '' @ u
                          @ js ''\<newline>'' @ c)
                    (take 3 (case results of None \<Rightarrow> [] | Some rs \<Rightarrow> rs))))"
proof -
  let ?line = "\<lambda>(t, u, c). bullet # js '' '' @ t @ js '' '' @ emdash # js '' '' @ u
                  @ js ''\<newline>'' @ c"
  let ?rs = "case results of None \<Rightarrow> [] | Some rs \<Rightarrow> rs"
  have "those (map (renderResult rt) (take 3 (map resultObj ?rs))) = Some (map ?line (take 3 ?rs))"
    by (simp only: take_map those_render)
  from formatContext_object [OF this, of answer results]
  show ?thesis
    unfolding searchData_def by (cases results) simp_all
qed

lemma formatContext_sample:
  "formatContext rt sample_data
     = Some (js ''Answer: A\<newline>\<newline>'' @ bullet # js '' T1 '' @ emdash # js '' U1\<newline>C1\<newline>\<newline>''
             @ bullet # js '' T2 '' @ emdash # js '' U2\<newline>C2'')"
  by (simp add: formatContext_def sample_data_def getProp_def template_def slice03_def
      renderResult_def js_def)

lemma search_success:
  assumes "TAVILY_API_KEY ev = Some key" "key \<noteq> []"
    and "net (tavilyRequest key query) = Resolves res" "resp_ok res" "resp_json res = Some data"
    and "formatContext rt data = Some context"
  shows "searchWebWithTavily ev rt net query
           = (Some context, [Sent (tavilyRequest key query), Settled (tavilyRequest key query)])"
  using assms by (simp add: searchWebWithTavily_def searchTry_def Let_def)

lemma search_total: "\<exists>s. fst (searchWebWithTavily ev rt net query) = Some s"
  by (auto simp: searchWebWithTavily_def split: option.splits prod.splits)

lemma search_trace:
  "snd (searchWebWithTavily ev rt net query) = [] \<or>
   (\<exists>key. TAVILY_API_KEY ev = Some key \<and> key \<noteq> [] \<and>
      snd (searchWebWithTavily ev rt net query)
        = [Sent (tavilyRequest key query), Settled (tavilyRequest key query)])"
  by (auto simp: searchWebWithTavily_def searchTry_def Let_def split: option.splits prod.splits)

text \<open>
  Claim C4. With the search credential set and a successful provider response, the
  string \<open>searchWebWithTavily\<close> returns for the specification's example (answer
  \<open>A\<close>, results \<open>T1/U1/C1\<close> and \<open>T2/U2/C2\<close>) is exactly
  \<^verbatim>\<open>Answer: A\n\n* T1 - U1\nC1\n\n* T2 - U2\nC2\<close> (with the bullet for \<^verbatim>\<open>*\<close> and the em dash
  for \<^verbatim>\<open>-\<close>); for every response of the
  documented shape it is the line \<^verbatim>\<open>Answer: {answer}\n\n\<close>, present when the answer is
  a non-empty string, followed by the first three results at most, each rendered as
  bullet, title, em dash, url, newline, content, joined by blank lines.
\<close>

theorem search_context_format:
  assumes "TAVILY_API_KEY ev = Some key" and "key \<noteq> []"
    and "net (tavilyRequest key query) = Resolves res" and "resp_ok res"
  shows "(resp_json res = Some sample_data \<longrightarrow>
            fst (searchWebWithTavily ev rt net query)
              = Some (js ''Answer: A\<newline>\<newline>'' @ bullet # js '' T1 '' @ emdash # js '' U1\<newline>C1\<newline>\<newline>''
                      @ bullet # js '' T2 '' @ emdash # js '' U2\<newline>C2'')) \<and>
         (\<forall>answer results. resp_json res = Some (searchData answer results) \<longrightarrow>
            fst (searchWebWithTavily ev rt net query)
              = Some ((case answer of None \<Rightarrow> []
                       | Some a \<Rightarrow> if a = [] then [] else js ''Answer: '' @ a @ js ''\<newline>\<newline>'')
                      @ join (js ''\<newline>\<newline>'')
                          (map (\<lambda>(title, url, content).
                                   bullet # js '' '' @ title @ js '' '' @ emdash # js '' '' @ url
                                     @ js ''\<newline>'' @ content)
                             (take 3 (case results of None \<Rightarrow> [] | Some rs \<Rightarrow> rs)))))"
proof (intro conjI allI impI)
  assume "resp_json res = Some sample_data"
  from search_success [where net = net and key = key and query = query, OF assms this formatContext_sample [of rt]]
  show "fst (searchWebWithTavily ev rt net query)
      = Some (js ''Answer: A\<newline>\<newline>'' @ bullet # js '' T1 '' @ emdash # js '' U1\<newline>C1\<newline>\<newline>''
              @ bullet # js '' T2 '' @ emdash # js '' U2\<newline>C2'')"
    by simp
next
  fix answer results
  assume "resp_json res = Some (searchData answer results)"
  from search_success [where net = net and key = key and query = query, OF assms this formatContext_searchData [of rt answer results]]
  show "fst (searchWebWithTavily ev rt net query)
      = Some ((case answer of None \<Rightarrow> []
               | Some a \<Rightarrow> if a = [] then [] else js ''Answer: '' @ a @ js ''\<newline>\<newline>'')
              @ join (js ''\<newline>\<newline>'')
                  (map (\<lambda>(title, url, content).
                           bullet # js '' '' @ title @ js '' '' @ emdash # js '' '' @ url
                             @ js ''\<newline>'' @ content)
                     (take 3 (case results of None \<Rightarrow> [] | Some rs \<Rightarrow> rs))))"
    by simp
qed

theorem search_context_format_witness:
  "TAVILY_API_KEY sample_env = Some (js ''search-key'') \<and> js ''search-key'' \<noteq> [] \<and>
   sample_network \<lparr> resp_ok = True, resp_text = None, resp_json = Some sample_data \<rparr> sample_reply
       (tavilyRequest (js ''search-key'') (JStr (js ''weather today'')))
     = Resolves \<lparr> resp_ok = True, resp_text = None, resp_json = Some sample_data \<rparr> \<and>
   fst (searchWebWithTavily sample_env sample_runtime
          (sample_network \<lparr> resp_ok = True, resp_text = None, resp_json = Some sample_data \<rparr> sample_reply)
          (JStr (js ''weather today'')))
     = Some (js ''Answer: A\<newline>\<newline>'' @ bullet # js '' T1 '' @ emdash # js '' U1\<newline>C1\<newline>\<newline>''
             @ bullet # js '' T2 '' @ emdash # js '' U2\<newline>C2'') \<and>
   fst (searchWebWithTavily sample_env sample_runtime
          (sample_network \<lparr> resp_ok = True, resp_text = None,
              resp_json = Some (searchData None (Some [(js ''a'', js ''b'', js ''c''), (js ''d'', js ''e'', js ''f''),
                                   (js ''g'', js ''h'', js ''i''), (js ''j'', js ''k'', js ''l'')])) \<rparr> sample_reply)
          (JStr (js ''weather today'')))
     = Some (bullet # js '' a '' @ emdash # js '' b\<newline>c\<newline>\<newline>'' @ bullet # js '' d '' @ emdash # js '' e\<newline>f\<newline>\<newline>''
             @ bullet # js '' g '' @ emdash # js '' h\<newline>i'')"
proof -
  let ?res = "\<lparr> resp_ok = True, resp_text = None, resp_json = Some sample_data \<rparr>"
  let ?data4 = "searchData None (Some [(js ''a'', js ''b'', js ''c''), (js ''d'', js ''e'', js ''f''),
                                   (js ''g'', js ''h'', js ''i''), (js ''j'', js ''k'', js ''l'')])"
  let ?res4 = "\<lparr> resp_ok = True, resp_text = None, resp_json = Some ?data4 \<rparr>"
  let ?q = "JStr (js ''weather today'')"
  have k: "TAVILY_API_KEY sample_env = Some (js ''search-key'')" by (simp add: sample_env_def)
  have n: "js ''search-key'' \<noteq> []" by (simp add: js_def)
  have r: "sample_network ?res sample_reply (tavilyRequest (js ''search-key'') ?q) = Resolves ?res"
    by (simp add: sample_network_def tavilyRequest_def)
  have r4: "sample_network ?res4 sample_reply (tavilyRequest (js ''search-key'') ?q) = Resolves ?res4"
    by (simp add: sample_network_def tavilyRequest_def)
  have ok: "resp_ok ?res" "resp_ok ?res4" by simp_all
  from search_context_format [where net = "sample_network ?res sample_reply" and rt = sample_runtime, OF k n r ok(1)]
  have a: "fst (searchWebWithTavily sample_env sample_runtime (sample_network ?res sample_reply) ?q)
     = Some (js ''Answer: A\<newline>\<newline>'' @ bullet # js '' T1 '' @ emdash # js '' U1\<newline>C1\<newline>\<newline>''
             @ bullet # js '' T2 '' @ emdash # js '' U2\<newline>C2'')"
    by simp
  from search_context_format [where net = "sample_network ?res4 sample_reply" and rt = sample_runtime, OF k n r4 ok(2)]
  have "fst (searchWebWithTavily sample_env sample_runtime (sample_network ?res4 sample_reply) ?q)
     = Some (join (js ''\<newline>\<newline>'')
                          (map (\<lambda>(title, url, content).
                                   bullet # js '' '' @ title @ js '' '' @ emdash # js '' '' @ url
                                     @ js ''\<newline>'' @ content)
                             (take 3 [(js ''a'', js ''b'', js ''c''), (js ''d'', js ''e'', js ''f''),
                                   (js ''g'', js ''h'', js ''i''), (js ''j'', js ''k'', js ''l'')])))"
    by simp
  then have b: "fst (searchWebWithTavily sample_env sample_runtime (sample_network ?res4 sample_reply) ?q)
     = Some (bullet # js '' a '' @ emdash # js '' b\<newline>c\<newline>\<newline>'' @ bullet # js '' d '' @ emdash # js '' e\<newline>f\<newline>\<newline>''
             @ bullet # js '' g '' @ emdash # js '' h\<newline>i'')"
    by (simp add: js_def)
  from k n r a b show ?thesis by blast
qed

text \<open>
  Claim C5. \<open>searchWebWithTavily\<close> never raises to its caller: it always returns a
  string. With the search credential unset (or empty) it returns the empty string
  without any outbound call; with the credential set it returns the empty string when
  the provider answers with a non-success status, when the call fails at the
  transport level (the request is rejected, or the body is not valid JSON), and when
  formatting the parsed body throws.
\<close>

theorem search_never_raises:
  "(\<exists>s. fst (searchWebWithTavily ev rt net query) = Some s) \<and>
   (TAVILY_API_KEY ev = None \<or> TAVILY_API_KEY ev = Some [] \<longrightarrow>
      searchWebWithTavily ev rt net query = (Some [], [])) \<and>
   (\<forall>key. TAVILY_API_KEY ev = Some key \<and> key \<noteq> [] \<longrightarrow>
      (\<forall>res. net (tavilyRequest key query) = Resolves res \<and> \<not> resp_ok res \<longrightarrow>
         fst (searchWebWithTavily ev rt net query) = Some []) \<and>
      (net (tavilyRequest key query) = Rejects \<longrightarrow>
         fst (searchWebWithTavily ev rt net query) = Some []) \<and>
      (\<forall>res. net (tavilyRequest key query) = Resolves res \<and> resp_ok res \<and> resp_json res = None \<longrightarrow>
         fst (searchWebWithTavily ev rt net query) = Some []) \<and>
      (\<forall>res data. net (tavilyRequest key query) = Resolves res \<and> resp_ok res \<and>
           resp_json res = Some data \<and> formatContext rt data = None \<longrightarrow>
         fst (searchWebWithTavily ev rt net query) = Some []))"
proof (intro conjI allI impI)
  show "\<exists>s. fst (searchWebWithTavily ev rt net query) = Some s" by (rule search_total)
next
  assume "TAVILY_API_KEY ev = None \<or> TAVILY_API_KEY ev = Some []"
  then show "searchWebWithTavily ev rt net query = (Some [], [])"
    by (auto simp: searchWebWithTavily_def)
next
  fix key res
  assume "TAVILY_API_KEY ev = Some key \<and> key \<noteq> []"
    and "net (tavilyRequest key query) = Resolves res \<and> \<not> resp_ok res"
  then show "fst (searchWebWithTavily ev rt net query) = Some []"
    by (simp add: searchWebWithTavily_def searchTry_def Let_def split: option.splits)
next
  fix key
  assume "TAVILY_API_KEY ev = Some key \<and> key \<noteq> []"
    and "net (tavilyRequest key query) = Rejects"
  then show "fst (searchWebWithTavily ev rt net query) = Some []"
    by (simp add: searchWebWithTavily_def searchTry_def Let_def)
next
  fix key res
  assume "TAVILY_API_KEY ev = Some key \<and> key \<noteq> []"
    and "net (tavilyRequest key query) = Resolves res \<and> resp_ok res \<and> resp_json res = None"
  then show "fst (searchWebWithTavily ev rt net query) = Some []"
    by (simp add: searchWebWithTavily_def searchTry_def Let_def)
next
  fix key res data
  assume "TAVILY_API_KEY ev = Some key \<and> key \<noteq> []"
    and "net (tavilyRequest key query) = Resolves res \<and> resp_ok res \<and>
           resp_json res = Some data \<and> formatContext rt data = None"
  then show "fst (searchWebWithTavily ev rt net query) = Some []"
    by (simp add: searchWebWithTavily_def searchTry_def Let_def)
qed

theorem search_never_raises_witness:
  "searchWebWithTavily \<lparr> LLM_API_KEY = Some (js ''llm-key''), TAVILY_API_KEY = None \<rparr> sample_runtime
       (sample_network sample_reply sample_reply) (JStr (js ''news''))
     = (Some [], []) \<and>
   fst (searchWebWithTavily sample_env sample_runtime
          (sample_network \<lparr> resp_ok = False, resp_text = Some (js ''quota''), resp_json = None \<rparr> sample_reply)
          (JStr (js ''news''))) = Some [] \<and>
   fst (searchWebWithTavily sample_env sample_runtime (\<lambda>req. Rejects) (JStr (js ''news''))) = Some [] \<and>
   fst (searchWebWithTavily sample_env sample_runtime
          (sample_network \<lparr> resp_ok = True, resp_text = Some (js ''<html>''), resp_json = None \<rparr> sample_reply)
          (JStr (js ''news''))) = Some [] \<and>
   fst (searchWebWithTavily sample_env sample_runtime
          (sample_network \<lparr> resp_ok = True, resp_text = Some (js ''null''), resp_json = Some JNull \<rparr> sample_reply)
          (JStr (js ''news''))) = Some []"
proof -
  let ?q = "JStr (js ''news'')"
  let ?bad = "\<lparr> resp_ok = False, resp_text = Some (js ''quota''), resp_json = None \<rparr>"
  let ?html = "\<lparr> resp_ok = True, resp_text = Some (js ''<html>''), resp_json = None \<rparr>"
  let ?null = "\<lparr> resp_ok = True, resp_text = Some (js ''null''), resp_json = Some JNull \<rparr>"
  have k: "TAVILY_API_KEY sample_env = Some (js ''search-key'') \<and> js ''search-key'' \<noteq> []"
    by (simp add: sample_env_def js_def)
  have "searchWebWithTavily \<lparr> LLM_API_KEY = Some (js ''llm-key''), TAVILY_API_KEY = None \<rparr> sample_runtime
       (sample_network sample_reply sample_reply) ?q = (Some [], [])"
    using search_never_raises
      [of "\<lparr> LLM_API_KEY = Some (js ''llm-key''), TAVILY_API_KEY = None \<rparr>" sample_runtime
          "sample_network sample_reply sample_reply" ?q]
    by simp
  moreover have "fst (searchWebWithTavily sample_env sample_runtime (sample_network ?bad sample_reply) ?q) = Some []"
  proof -
    have "sample_network ?bad sample_reply (tavilyRequest (js ''search-key'') ?q) = Resolves ?bad \<and> \<not> resp_ok ?bad"
      by (simp add: sample_network_def tavilyRequest_def)
    with k search_never_raises [of sample_env sample_runtime "sample_network ?bad sample_reply" ?q]
    show ?thesis by blast
  qed
  moreover have "fst (searchWebWithTavily sample_env sample_runtime (\<lambda>req. Rejects) ?q) = Some []"
    using k search_never_raises [of sample_env sample_runtime "\<lambda>req. Rejects" ?q] by blast
  moreover have "fst (searchWebWithTavily sample_env sample_runtime (sample_network ?html sample_reply) ?q) = Some []"
  proof -
    have "sample_network ?html sample_reply (tavilyRequest (js ''search-key'') ?q) = Resolves ?html
        \<and> resp_ok ?html \<and> resp_json ?html = None"
      by (simp add: sample_network_def tavilyRequest_def)
    with k search_never_raises [of sample_env sample_runtime "sample_network ?html sample_reply" ?q]
    show ?thesis by blast
  qed
  moreover have "fst (searchWebWithTavily sample_env sample_runtime (sample_network ?null sample_reply) ?q) = Some []"
  proof -
    have "sample_network ?null sample_reply (tavilyRequest (js ''search-key'') ?q) = Resolves ?null
        \<and> resp_ok ?null \<and> resp_json ?null = Some JNull \<and> formatContext sample_runtime JNull = None"
      by (simp add: sample_network_def tavilyRequest_def formatContext_def getProp_def)
    with k search_never_raises [of sample_env sample_runtime "sample_network ?null sample_reply" ?q]
    show ?thesis by blast
  qed
  ultimately show ?thesis by blast
qed

section \<open>Properties of the chat endpoint\<close>

lemma shouldUseWeb_string_total: "\<exists>b. shouldUseWeb rt (JStr s) = Some b"
  by (simp add: shouldUseWeb_string)

lemma getMember_JStr_not_nullish: "getMember b k = JStr s \<Longrightarrow> \<not> nullish b"
  by (cases b) simp_all

text \<open>A request that passes both guards: what the handler does next.\<close>

lemma api_chat_proceeds:
  assumes body: "\<not> nullish reqBody"
    and key: "LLM_API_KEY ev = Some key" "key \<noteq> []"
    and model: "truthy (getMember reqBody (js ''model''))"
    and message: "truthy (getMember reqBody (js ''message''))"
    and use: "shouldUseWeb rt (getMember reqBody (js ''message'')) = Some useWeb"
    and search: "(if useWeb then searchWebWithTavily ev rt net (getMember reqBody (js ''message''))
                  else (Some [], [])) = (Some webInfo, tr)"
    and req: "req = llmRequest V key (getMember reqBody (js ''model''))
                (buildMessages (getMember reqBody (js ''system'')) webInfo
                   (getMember reqBody (js ''message'')))"
  shows "api_chat V ev rt net reqBody
           = ((case llmResult V (net req) of None \<Rightarrow> serverError | Some res \<Rightarrow> res),
              tr @ [Sent req, Settled req])"
  using assms by (simp add: api_chat_def chatTry_def Let_def split: option.splits)

lemma api_chat_no_key:
  assumes "LLM_API_KEY ev = None \<or> LLM_API_KEY ev = Some []"
  shows "snd (api_chat V ev rt net reqBody) = []"
    and "status (fst (api_chat V ev rt net reqBody)) = 500"
  using assms by (auto simp: api_chat_def chatTry_def Let_def serverError_def)

lemma api_chat_invalid:
  assumes "\<not> nullish reqBody" "LLM_API_KEY ev = Some key" "key \<noteq> []"
    and "\<not> truthy (getMember reqBody (js ''model'')) \<or> \<not> truthy (getMember reqBody (js ''message''))"
  shows "api_chat V ev rt net reqBody
           = (\<lparr> status = 400,
                payload = JObj [(js ''error'', JStr (js ''model and message are required.''))] \<rparr>, [])"
  using assms by (auto simp: api_chat_def chatTry_def Let_def)

lemma llmRequest_url: "req_url (llmRequest V key model msgs) = llm_url V"
  by (simp add: llmRequest_def)

lemma llmRequest_messages:
  "getMember (req_body (llmRequest V key model msgs)) (js ''messages'') = JArr msgs"
  by (simp add: llmRequest_def js_def)

lemma llmRequest_model:
  "truthy model \<Longrightarrow> getMember (req_body (llmRequest V key model msgs)) (js ''model'') = model"
  by (simp add: llmRequest_def split: option.splits)

lemma tavilyRequest_fields:
  "req_url (tavilyRequest key query) = js ''https://api.tavily.com/search''"
  "getMember (req_body (tavilyRequest key query)) (js ''api_key'') = JStr key"
  "getMember (req_body (tavilyRequest key query)) (js ''query'') = query"
  by (simp_all add: tavilyRequest_def js_def)

lemma buildMessages_explicit:
  "buildMessages system webInfo message =
     JObj [(js ''role'', JStr (js ''system'')),
           (js ''content'',
            if truthy system then system
            else JStr (js ''You are DINX, a precise, helpful design assistant. Use web context if provided, and say when information may be out of date.''))]
     # (if webInfo \<noteq> []
        then [JObj [(js ''role'', JStr (js ''system'')),
                    (js ''content'',
                     JStr (js ''Here is information from a live web search. Use it carefully in your answer:\<newline>\<newline>''
                           @ webInfo))]]
        else [])
     @ [JObj [(js ''role'', JStr (js ''user'')), (js ''content'', message)]]"
  by (simp add: buildMessages_def chatMessage_def systemPrompt_def webPrefix_def)

text \<open>
  What a request that reaches the completion call sends, field by field: the
  endpoint, the model and the list of role/content objects.
\<close>

lemma api_chat_sends:
  assumes "LLM_API_KEY ev = Some key" and "key \<noteq> []"
    and "truthy (getMember reqBody (js ''model''))"
    and "getMember reqBody (js ''message'') = JStr s" and "s \<noteq> []"
  shows "\<exists>webInfo tr req.
           (if shouldUseWeb rt (JStr s) = Some True then searchWebWithTavily ev rt net (JStr s)
            else (Some [], [])) = (Some webInfo, tr) \<and>
           api_chat V ev rt net reqBody
             = ((case llmResult V (net req) of None \<Rightarrow> serverError | Some res \<Rightarrow> res),
                tr @ [Sent req, Settled req]) \<and>
           req_url req = llm_url V \<and>
           getMember (req_body req) (js ''model'') = getMember reqBody (js ''model'') \<and>
           getMember (req_body req) (js ''messages'')
             = JArr (JObj [(js ''role'', JStr (js ''system'')),
                           (js ''content'',
                            if truthy (getMember reqBody (js ''system''))
                            then getMember reqBody (js ''system'')
                            else JStr (js ''You are DINX, a precise, helpful design assistant. Use web context if provided, and say when information may be out of date.''))]
                     # (if webInfo \<noteq> []
                        then [JObj [(js ''role'', JStr (js ''system'')),
                                    (js ''content'',
                                     JStr (js ''Here is information from a live web search. Use it carefully in your answer:\<newline>\<newline>''
                                           @ webInfo))]]
                        else [])
                     @ [JObj [(js ''role'', JStr (js ''user'')), (js ''content'', JStr s)]])"
proof -
  have body: "\<not> nullish reqBody" using assms(4) by (rule getMember_JStr_not_nullish)
  obtain useWeb where use: "shouldUseWeb rt (getMember reqBody (js ''message'')) = Some useWeb"
    using assms(4) shouldUseWeb_string_total by auto
  have m: "truthy (getMember reqBody (js ''message''))" using assms(4,5) by simp
  obtain w0 where "fst (searchWebWithTavily ev rt net (JStr s)) = Some w0"
    using search_total by blast
  then have "\<exists>w tr. (if useWeb then searchWebWithTavily ev rt net (JStr s)
                  else (Some [], [])) = (Some w, tr)"
    by (cases useWeb) (auto simp: prod_eq_iff)
  then obtain w tr where
    search: "(if useWeb then searchWebWithTavily ev rt net (JStr s) else (Some [], [])) = (Some w, tr)"
    by blast
  have cond: "(shouldUseWeb rt (JStr s) = Some True) = useWeb" using use assms(4) by auto
  let ?req = "llmRequest V key (getMember reqBody (js ''model''))
                (buildMessages (getMember reqBody (js ''system'')) w (JStr s))"
  have run: "api_chat V ev rt net reqBody
      = ((case llmResult V (net ?req) of None \<Rightarrow> serverError | Some res \<Rightarrow> res),
         tr @ [Sent ?req, Settled ?req])"
  proof -
    have sm: "(if useWeb then searchWebWithTavily ev rt net (getMember reqBody (js ''message''))
               else (Some [], [])) = (Some w, tr)"
      unfolding assms(4) by (rule search)
    show ?thesis
      by (rule api_chat_proceeds [OF body assms(1-3) m use sm]) (simp add: assms(4))
  qed
  have "getMember (req_body ?req) (js ''messages'')
      = JArr (buildMessages (getMember reqBody (js ''system'')) w (JStr s))"
    by (rule llmRequest_messages)
  then have msgs: "getMember (req_body ?req) (js ''messages'')
             = JArr (JObj [(js ''role'', JStr (js ''system'')),
                           (js ''content'',
                            if truthy (getMember reqBody (js ''system''))
                            then getMember reqBody (js ''system'')
                            else JStr (js ''You are DINX, a precise, helpful design assistant. Use web context if provided, and say when information may be out of date.''))]
                     # (if w \<noteq> []
                        then [JObj [(js ''role'', JStr (js ''system'')),
                                    (js ''content'',
                                     JStr (js ''Here is information from a live web search. Use it carefully in your answer:\<newline>\<newline>''
                                           @ w))]]
                        else [])
                     @ [JObj [(js ''role'', JStr (js ''user'')), (js ''content'', JStr s)]])"
    by (simp only: buildMessages_explicit)
  have url: "req_url ?req = llm_url V" by (rule llmRequest_url)
  have mod: "getMember (req_body ?req) (js ''model'') = getMember reqBody (js ''model'')"
    using assms(3) by (rule llmRequest_model)
  from search cond have search': "(if shouldUseWeb rt (JStr s) = Some True
       then searchWebWithTavily ev rt net (JStr s) else (Some [], [])) = (Some w, tr)"
    by simp
  from search' run url mod msgs show ?thesis by blast
qed

text \<open>
  Claim C3. For a chat request with a non-empty model and a non-empty message string
  that, lower-cased, contains none of the trigger substrings: when the completion
  credential is set, exactly one request is sent, to the completion endpoint, and the
  \<open>messages\<close> field of its body is a list of exactly two objects, in order
  \<open>{role: system, content: ...}\<close> then \<open>{role: user, content: message}\<close>; without
  the credential nothing is sent. In either case every request sent goes to the
  completion endpoint, so none goes to the search endpoint.
\<close>

theorem chat_without_trigger:
  assumes "truthy (getMember reqBody (js ''model''))"
    and "getMember reqBody (js ''message'') = JStr s" and "s \<noteq> []"
    and "\<not> (\<exists>word\<in>set triggers. \<exists>ps ss. toLowerCase rt s = ps @ word @ ss)"
  shows "(\<forall>key. LLM_API_KEY ev = Some key \<and> key \<noteq> [] \<longrightarrow>
            (\<exists>req. snd (api_chat V ev rt net reqBody) = [Sent req, Settled req] \<and>
                   req_url req = llm_url V \<and>
                   getMember (req_body req) (js ''model'') = getMember reqBody (js ''model'') \<and>
                   getMember (req_body req) (js ''messages'')
                     = JArr [JObj [(js ''role'', JStr (js ''system'')),
                                   (js ''content'',
                                    if truthy (getMember reqBody (js ''system''))
                                    then getMember reqBody (js ''system'')
                                    else JStr (js ''You are DINX, a precise, helpful design assistant. Use web context if provided, and say when information may be out of date.''))],
                             JObj [(js ''role'', JStr (js ''user'')), (js ''content'', JStr s)]])) \<and>
         (LLM_API_KEY ev = None \<or> LLM_API_KEY ev = Some [] \<longrightarrow>
            snd (api_chat V ev rt net reqBody) = []) \<and>
         (\<forall>req. Sent req \<in> set (snd (api_chat V ev rt net reqBody)) \<longrightarrow> req_url req = llm_url V) \<and>
         (llm_url V \<noteq> js ''https://api.tavily.com/search'' \<longrightarrow>
            (\<forall>req. Sent req \<in> set (snd (api_chat V ev rt net reqBody)) \<longrightarrow>
                   req_url req \<noteq> js ''https://api.tavily.com/search''))"
proof -
  let ?msgs = "JArr [JObj [(js ''role'', JStr (js ''system'')),
                                   (js ''content'',
                                    if truthy (getMember reqBody (js ''system''))
                                    then getMember reqBody (js ''system'')
                                    else JStr (js ''You are DINX, a precise, helpful design assistant. Use web context if provided, and say when information may be out of date.''))],
                             JObj [(js ''role'', JStr (js ''user'')), (js ''content'', JStr s)]]"
  have use: "shouldUseWeb rt (JStr s) \<noteq> Some True"
    using assms(4) by (simp add: shouldUseWeb_string)
  have with_key: "\<exists>req. snd (api_chat V ev rt net reqBody) = [Sent req, Settled req] \<and>
                   req_url req = llm_url V \<and>
                   getMember (req_body req) (js ''model'') = getMember reqBody (js ''model'') \<and>
                   getMember (req_body req) (js ''messages'') = ?msgs"
    if "LLM_API_KEY ev = Some key \<and> key \<noteq> []" for key
  proof -
    from that have k: "LLM_API_KEY ev = Some key" "key \<noteq> []" by simp_all
    from api_chat_sends [OF k assms(1-3), of rt net V]
    obtain webInfo tr req where
      s: "(if shouldUseWeb rt (JStr s) = Some True then searchWebWithTavily ev rt net (JStr s)
            else (Some [], [])) = (Some webInfo, tr)"
      and run: "api_chat V ev rt net reqBody
             = ((case llmResult V (net req) of None \<Rightarrow> serverError | Some res \<Rightarrow> res),
                tr @ [Sent req, Settled req])"
      and url: "req_url req = llm_url V"
      and mod: "getMember (req_body req) (js ''model'') = getMember reqBody (js ''model'')"
      and msgs: "getMember (req_body req) (js ''messages'')
             = JArr (JObj [(js ''role'', JStr (js ''system'')),
                           (js ''content'',
                            if truthy (getMember reqBody (js ''system''))
                            then getMember reqBody (js ''system'')
                            else JStr (js ''You are DINX, a precise, helpful design assistant. Use web context if provided, and say when information may be out of date.''))]
                     # (if webInfo \<noteq> []
                        then [JObj [(js ''role'', JStr (js ''system'')),
                                    (js ''content'',
                                     JStr (js ''Here is information from a live web search. Use it carefully in your answer:\<newline>\<newline>''
                                           @ webInfo))]]
                        else [])
                     @ [JObj [(js ''role'', JStr (js ''user'')), (js ''content'', JStr s)]])"
      by blast
    from s use have e: "webInfo = []" "tr = []" by simp_all
    from run have "snd (api_chat V ev rt net reqBody) = [Sent req, Settled req]"
      by (simp add: e)
    moreover from msgs have "getMember (req_body req) (js ''messages'') = ?msgs"
      by (simp add: e)
    ultimately show ?thesis using url mod by blast
  qed
  have no_key: "snd (api_chat V ev rt net reqBody) = []"
    if "LLM_API_KEY ev = None \<or> LLM_API_KEY ev = Some []"
    using that by (rule api_chat_no_key)
  have urls: "req_url req = llm_url V" if "Sent req \<in> set (snd (api_chat V ev rt net reqBody))" for req
  proof (cases "LLM_API_KEY ev = None \<or> LLM_API_KEY ev = Some []")
    case True
    with that show ?thesis by (simp add: no_key)
  next
    case False
    then obtain key where "LLM_API_KEY ev = Some key \<and> key \<noteq> []" by auto
    from with_key [OF this] that show ?thesis by auto
  qed
  from with_key no_key urls show ?thesis by metis
qed

theorem chat_without_trigger_witness:
  "truthy (getMember (JObj [(js ''model'', JStr (js ''m'')), (js ''message'', JStr (js ''Hello there''))]) (js ''model'')) \<and>
   getMember (JObj [(js ''model'', JStr (js ''m'')), (js ''message'', JStr (js ''Hello there''))]) (js ''message'')
     = JStr (js ''Hello there'') \<and>
   js ''Hello there'' \<noteq> [] \<and>
   \<not> (\<exists>word\<in>set triggers. \<exists>ps ss. toLowerCase sample_runtime (js ''Hello there'') = ps @ word @ ss) \<and>
   LLM_API_KEY sample_env = Some (js ''llm-key'') \<and> js ''llm-key'' \<noteq> [] \<and>
   llm_url server_js \<noteq> js ''https://api.tavily.com/search'' \<and>
   (\<exists>req. snd (api_chat server_js sample_env sample_runtime (sample_network sample_reply sample_reply)
                 (JObj [(js ''model'', JStr (js ''m'')), (js ''message'', JStr (js ''Hello there''))]))
             = [Sent req, Settled req] \<and>
          req_url req = js ''https://api.groq.com/openai/v1/chat/completions'' \<and>
          req_url req \<noteq> js ''https://api.tavily.com/search'' \<and>
          getMember (req_body req) (js ''model'') = JStr (js ''m'') \<and>
          getMember (req_body req) (js ''messages'')
            = JArr [JObj [(js ''role'', JStr (js ''system'')),
                          (js ''content'', JStr (js ''You are DINX, a precise, helpful design assistant. Use web context if provided, and say when information may be out of date.''))],
                    JObj [(js ''role'', JStr (js ''user'')),
                          (js ''content'', JStr (js ''Hello there''))]])"
proof -
  let ?b = "JObj [(js ''model'', JStr (js ''m'')), (js ''message'', JStr (js ''Hello there''))]"
  let ?net = "sample_network sample_reply sample_reply"
  have h2: "truthy (getMember ?b (js ''model''))" by (simp add: js_def)
  have h3: "getMember ?b (js ''message'') = JStr (js ''Hello there'')" by (simp add: js_def)
  have h4: "js ''Hello there'' \<noteq> []" by (simp add: js_def)
  have h5: "\<not> (\<exists>word\<in>set triggers. \<exists>ps ss. toLowerCase sample_runtime (js ''Hello there'') = ps @ word @ ss)"
    by (simp add: includes_iff [symmetric] triggers_def toLowerCase_def lowerAt_def asciiLower_def
        js_def sample_runtime_def upt_rec)
  have k: "LLM_API_KEY sample_env = Some (js ''llm-key'') \<and> js ''llm-key'' \<noteq> []"
    by (simp add: sample_env_def js_def)
  have u: "llm_url server_js \<noteq> js ''https://api.tavily.com/search''"
    by (simp add: server_js_def js_def)
  have ue: "llm_url server_js = js ''https://api.groq.com/openai/v1/chat/completions''"
    by (simp add: server_js_def)
  have sys: "getMember ?b (js ''system'') = JUndefined" by (simp add: js_def)
  have mod: "getMember ?b (js ''model'') = JStr (js ''m'')" by (simp add: js_def)
  note t = chat_without_trigger[OF h2 h3 h4 h5, of sample_env server_js ?net]
  from t k obtain req where
    tr: "snd (api_chat server_js sample_env sample_runtime ?net ?b) = [Sent req, Settled req]"
    and url: "req_url req = llm_url server_js"
    and m: "getMember (req_body req) (js ''model'') = getMember ?b (js ''model'')"
    and ms: "getMember (req_body req) (js ''messages'')
                     = JArr [JObj [(js ''role'', JStr (js ''system'')),
                                   (js ''content'',
                                    if truthy (getMember ?b (js ''system''))
                                    then getMember ?b (js ''system'')
                                    else JStr (js ''You are DINX, a precise, helpful design assistant. Use web context if provided, and say when information may be out of date.''))],
                             JObj [(js ''role'', JStr (js ''user'')), (js ''content'', JStr (js ''Hello there''))]]"
    by blast
  from tr have "Sent req \<in> set (snd (api_chat server_js sample_env sample_runtime ?net ?b))" by simp
  with t u have nt: "req_url req \<noteq> js ''https://api.tavily.com/search''" by blast
  from ms have ms': "getMember (req_body req) (js ''messages'')
            = JArr [JObj [(js ''role'', JStr (js ''system'')),
                          (js ''content'', JStr (js ''You are DINX, a precise, helpful design assistant. Use web context if provided, and say when information may be out of date.''))],
                    JObj [(js ''role'', JStr (js ''user'')),
                          (js ''content'', JStr (js ''Hello there''))]]"
    by (simp only: sys truthy.simps if_False)
  from m have m': "getMember (req_body req) (js ''model'') = JStr (js ''m'')" by (simp only: mod)
  from url have url': "req_url req = js ''https://api.groq.com/openai/v1/chat/completions''"
    by (simp only: ue)
  from tr url' nt m' ms' have "\<exists>req. snd (api_chat server_js sample_env sample_runtime ?net ?b)
             = [Sent req, Settled req] \<and>
          req_url req = js ''https://api.groq.com/openai/v1/chat/completions'' \<and>
          req_url req \<noteq> js ''https://api.tavily.com/search'' \<and>
          getMember (req_body req) (js ''model'') = JStr (js ''m'') \<and>
          getMember (req_body req) (js ''messages'')
            = JArr [JObj [(js ''role'', JStr (js ''system'')),
                          (js ''content'', JStr (js ''You are DINX, a precise, helpful design assistant. Use web context if provided, and say when information may be out of date.''))],
                    JObj [(js ''role'', JStr (js ''user'')),
                          (js ''content'', JStr (js ''Hello there''))]]"
    by blast
  with h2 h3 h4 h5 k u show ?thesis by blast
qed

text \<open>
  Claim C2 says that every chat request whose message contains \<open>weather today\<close>,
  with a search credential configured, reaches the search provider. The handler
  checks the completion credential and the \<open>model\<close> field first: without either,
  it answers at once and sends nothing, whatever the message.
\<close>

theorem chat_weather_guarded_counterexample:
  "snd (api_chat server_js \<lparr> LLM_API_KEY = None, TAVILY_API_KEY = Some (js ''search-key'') \<rparr>
          sample_runtime
          (sample_network \<lparr> resp_ok = True, resp_text = None, resp_json = Some sample_data \<rparr> sample_reply)
          (JObj [(js ''model'', JStr (js ''m'')), (js ''message'', JStr (js ''weather today''))]))
     = [] \<and>
   snd (api_chat server_js sample_env sample_runtime
          (sample_network \<lparr> resp_ok = True, resp_text = None, resp_json = Some sample_data \<rparr> sample_reply)
          (JObj [(js ''message'', JStr (js ''weather today''))]))
     = []"
  by (simp add: api_chat_def chatTry_def sample_env_def js_def)

text \<open>
  Claim C2, amended. For every chat request with a non-empty model whose message
  contains \<open>weather today\<close>, with both the completion credential and the search
  credential configured: the handler sends a request to the search endpoint carrying
  the message as \<open>query\<close>, that call settles and \<open>searchWebWithTavily\<close> returns
  before the request to the completion endpoint is sent, and these are the only
  outbound calls; when the search returns a non-empty context string, the
  \<open>messages\<close> field of the completion request is a list of exactly three objects,
  in order: \<open>{role: system, ...}\<close>, \<open>{role: system, content: prefix + context}\<close>,
  \<open>{role: user, content: message}\<close>.
\<close>

theorem chat_with_weather_today:
  assumes "LLM_API_KEY ev = Some key" and "key \<noteq> []"
    and "TAVILY_API_KEY ev = Some tkey" and "tkey \<noteq> []"
    and "truthy (getMember reqBody (js ''model''))"
    and "getMember reqBody (js ''message'') = JStr (ps @ js ''weather today'' @ ss)"
  shows "\<exists>webInfo sreq lreq.
           searchWebWithTavily ev rt net (JStr (ps @ js ''weather today'' @ ss))
             = (Some webInfo, [Sent sreq, Settled sreq]) \<and>
           snd (api_chat V ev rt net reqBody) = [Sent sreq, Settled sreq, Sent lreq, Settled lreq] \<and>
           req_url sreq = js ''https://api.tavily.com/search'' \<and>
           getMember (req_body sreq) (js ''api_key'') = JStr tkey \<and>
           getMember (req_body sreq) (js ''query'') = JStr (ps @ js ''weather today'' @ ss) \<and>
           req_url lreq = llm_url V \<and>
           getMember (req_body lreq) (js ''model'') = getMember reqBody (js ''model'') \<and>
           (webInfo \<noteq> [] \<longrightarrow>
              getMember (req_body lreq) (js ''messages'')
                = JArr [JObj [(js ''role'', JStr (js ''system'')),
                              (js ''content'',
                               if truthy (getMember reqBody (js ''system''))
                               then getMember reqBody (js ''system'')
                               else JStr (js ''You are DINX, a precise, helpful design assistant. Use web context if provided, and say when information may be out of date.''))],
                        JObj [(js ''role'', JStr (js ''system'')),
                              (js ''content'',
                               JStr (js ''Here is information from a live web search. Use it carefully in your answer:\<newline>\<newline>''
                                     @ webInfo))],
                        JObj [(js ''role'', JStr (js ''user'')),
                              (js ''content'', JStr (ps @ js ''weather today'' @ ss))]])"
proof -
  let ?s = "ps @ js ''weather today'' @ ss"
  let ?tav = "tavilyRequest tkey (JStr ?s)"
  have "js ''weather'' \<in> set triggers" by (simp add: triggers_def js_def)
  moreover have "map asciiLower (js ''weather'') = js ''weather''"
    by (simp add: asciiLower_def js_def)
  ultimately have "shouldUseWeb rt (JStr (ps @ js ''weather'' @ (js '' today'' @ ss))) = Some True"
    by (rule shouldUseWeb_hit)
  moreover have "ps @ js ''weather'' @ (js '' today'' @ ss) = ?s" by (simp add: js_def)
  ultimately have use: "shouldUseWeb rt (JStr ?s) = Some True" by simp
  have ne: "?s \<noteq> []" by (simp add: js_def)
  have strace: "snd (searchWebWithTavily ev rt net (JStr ?s)) = [Sent ?tav, Settled ?tav]"
    using assms(3,4) by (simp add: searchWebWithTavily_def searchTry_def Let_def split: option.splits)
  from api_chat_sends [OF assms(1,2,5,6) ne, of rt net V]
  obtain webInfo tr lreq where
    s: "(if shouldUseWeb rt (JStr ?s) = Some True then searchWebWithTavily ev rt net (JStr ?s)
          else (Some [], [])) = (Some webInfo, tr)"
    and run: "api_chat V ev rt net reqBody
           = ((case llmResult V (net lreq) of None \<Rightarrow> serverError | Some res \<Rightarrow> res),
              tr @ [Sent lreq, Settled lreq])"
    and url: "req_url lreq = llm_url V"
    and mod: "getMember (req_body lreq) (js ''model'') = getMember reqBody (js ''model'')"
    and msgs: "getMember (req_body lreq) (js ''messages'')
           = JArr (JObj [(js ''role'', JStr (js ''system'')),
                         (js ''content'',
                          if truthy (getMember reqBody (js ''system''))
                          then getMember reqBody (js ''system'')
                          else JStr (js ''You are DINX, a precise, helpful design assistant. Use web context if provided, and say when information may be out of date.''))]
                   # (if webInfo \<noteq> []
                      then [JObj [(js ''role'', JStr (js ''system'')),
                                  (js ''content'',
                                   JStr (js ''Here is information from a live web search. Use it carefully in your answer:\<newline>\<newline>''
                                         @ webInfo))]]
                      else [])
                   @ [JObj [(js ''role'', JStr (js ''user'')), (js ''content'', JStr ?s)]])"
    by blast
  from s use have search: "searchWebWithTavily ev rt net (JStr ?s) = (Some webInfo, tr)" by simp
  with strace have tr: "tr = [Sent ?tav, Settled ?tav]" by simp
  from run have trace: "snd (api_chat V ev rt net reqBody) = [Sent ?tav, Settled ?tav, Sent lreq, Settled lreq]"
    by (simp add: tr)
  from msgs have three: "webInfo \<noteq> [] \<longrightarrow>
              getMember (req_body lreq) (js ''messages'')
                = JArr [JObj [(js ''role'', JStr (js ''system'')),
                              (js ''content'',
                               if truthy (getMember reqBody (js ''system''))
                               then getMember reqBody (js ''system'')
                               else JStr (js ''You are DINX, a precise, helpful design assistant. Use web context if provided, and say when information may be out of date.''))],
                        JObj [(js ''role'', JStr (js ''system'')),
                              (js ''content'',
                               JStr (js ''Here is information from a live web search. Use it carefully in your answer:\<newline>\<newline>''
                                     @ webInfo))],
                        JObj [(js ''role'', JStr (js ''user'')),
                              (js ''content'', JStr ?s)]]"
    by simp
  from search tr have search': "searchWebWithTavily ev rt net (JStr ?s) = (Some webInfo, [Sent ?tav, Settled ?tav])"
    by simp
  from search' trace tavilyRequest_fields [of tkey "JStr ?s"] url mod three
  show ?thesis by blast
qed

theorem chat_with_weather_today_witness:
  "LLM_API_KEY sample_env = Some (js ''llm-key'') \<and> js ''llm-key'' \<noteq> [] \<and>
   TAVILY_API_KEY sample_env = Some (js ''search-key'') \<and> js ''search-key'' \<noteq> [] \<and>
   truthy (getMember (JObj [(js ''model'', JStr (js ''m'')), (js ''message'', JStr (js ''weather today''))]) (js ''model'')) \<and>
   getMember (JObj [(js ''model'', JStr (js ''m'')), (js ''message'', JStr (js ''weather today''))]) (js ''message'')
     = JStr ([] @ js ''weather today'' @ []) \<and>
   (\<exists>sreq lreq.
      snd (api_chat server_js sample_env sample_runtime
             (sample_network \<lparr> resp_ok = True, resp_text = None, resp_json = Some sample_data \<rparr> sample_reply)
             (JObj [(js ''model'', JStr (js ''m'')), (js ''message'', JStr (js ''weather today''))]))
        = [Sent sreq, Settled sreq, Sent lreq, Settled lreq] \<and>
      req_url sreq = js ''https://api.tavily.com/search'' \<and>
      getMember (req_body sreq) (js ''query'') = JStr (js ''weather today'') \<and>
      req_url lreq = js ''https://api.groq.com/openai/v1/chat/completions'' \<and>
      getMember (req_body lreq) (js ''model'') = JStr (js ''m'') \<and>
      getMember (req_body lreq) (js ''messages'')
        = JArr [JObj [(js ''role'', JStr (js ''system'')),
                      (js ''content'', JStr (js ''You are DINX, a precise, helpful design assistant. Use web context if provided, and say when information may be out of date.''))],
                JObj [(js ''role'', JStr (js ''system'')),
                      (js ''content'',
                       JStr (js ''Here is information from a live web search. Use it carefully in your answer:\<newline>\<newline>''
                             @ js ''Answer: A\<newline>\<newline>'' @ bullet # js '' T1 '' @ emdash
                             # js '' U1\<newline>C1\<newline>\<newline>'' @ bullet # js '' T2 '' @ emdash # js '' U2\<newline>C2''))],
                JObj [(js ''role'', JStr (js ''user'')),
                      (js ''content'', JStr (js ''weather today''))]])"
proof -
  let ?b = "JObj [(js ''model'', JStr (js ''m'')), (js ''message'', JStr (js ''weather today''))]"
  let ?res = "\<lparr> resp_ok = True, resp_text = None, resp_json = Some sample_data \<rparr>"
  let ?net = "sample_network ?res sample_reply"
  let ?q = "JStr (js ''weather today'')"
  let ?ctx = "js ''Answer: A\<newline>\<newline>'' @ bullet # js '' T1 '' @ emdash
                # js '' U1\<newline>C1\<newline>\<newline>'' @ bullet # js '' T2 '' @ emdash # js '' U2\<newline>C2''"
  have h2: "LLM_API_KEY sample_env = Some (js ''llm-key'')" by (simp add: sample_env_def)
  have h3: "js ''llm-key'' \<noteq> []" by (simp add: js_def)
  have h4: "TAVILY_API_KEY sample_env = Some (js ''search-key'')" by (simp add: sample_env_def)
  have h5: "js ''search-key'' \<noteq> []" by (simp add: js_def)
  have h6: "truthy (getMember ?b (js ''model''))" by (simp add: js_def)
  have h7: "getMember ?b (js ''message'') = JStr ([] @ js ''weather today'' @ [])" by (simp add: js_def)
  have sys: "getMember ?b (js ''system'') = JUndefined" by (simp add: js_def)
  have mod: "getMember ?b (js ''model'') = JStr (js ''m'')" by (simp add: js_def)
  have ue: "llm_url server_js = js ''https://api.groq.com/openai/v1/chat/completions''"
    by (simp add: server_js_def)
  have net: "?net (tavilyRequest (js ''search-key'') ?q) = Resolves ?res"
    by (simp add: sample_network_def tavilyRequest_def)
  have search: "searchWebWithTavily sample_env sample_runtime ?net ?q
      = (Some ?ctx, [Sent (tavilyRequest (js ''search-key'') ?q), Settled (tavilyRequest (js ''search-key'') ?q)])"
    by (rule search_success [where net = ?net and key = "js ''search-key''" and query = ?q,
          OF h4 h5 net _ _ formatContext_sample]) simp_all
  have ne: "?ctx \<noteq> []" by simp
  from chat_with_weather_today[OF h2 h3 h4 h5 h6 h7, of sample_runtime ?net server_js]
  obtain webInfo sreq lreq where
    w: "searchWebWithTavily sample_env sample_runtime ?net ?q = (Some webInfo, [Sent sreq, Settled sreq])"
    and tr: "snd (api_chat server_js sample_env sample_runtime ?net ?b)
             = [Sent sreq, Settled sreq, Sent lreq, Settled lreq]"
    and su: "req_url sreq = js ''https://api.tavily.com/search''"
    and sq: "getMember (req_body sreq) (js ''query'') = ?q"
    and lu: "req_url lreq = llm_url server_js"
    and lm: "getMember (req_body lreq) (js ''model'') = getMember ?b (js ''model'')"
    and three: "webInfo \<noteq> [] \<longrightarrow>
              getMember (req_body lreq) (js ''messages'')
                = JArr [JObj [(js ''role'', JStr (js ''system'')),
                              (js ''content'',
                               if truthy (getMember ?b (js ''system''))
                               then getMember ?b (js ''system'')
                               else JStr (js ''You are DINX, a precise, helpful design assistant. Use web context if provided, and say when information may be out of date.''))],
                        JObj [(js ''role'', JStr (js ''system'')),
                              (js ''content'',
                               JStr (js ''Here is information from a live web search. Use it carefully in your answer:\<newline>\<newline>''
                                     @ webInfo))],
                        JObj [(js ''role'', JStr (js ''user'')),
                              (js ''content'', ?q)]]"
    by auto
  from w search have eq: "webInfo = ?ctx" by simp
  have wne: "webInfo \<noteq> []" unfolding eq by (rule ne)
  from three wne
  have m3: "getMember (req_body lreq) (js ''messages'')
                = JArr [JObj [(js ''role'', JStr (js ''system'')),
                              (js ''content'',
                               if truthy (getMember ?b (js ''system''))
                               then getMember ?b (js ''system'')
                               else JStr (js ''You are DINX, a precise, helpful design assistant. Use web context if provided, and say when information may be out of date.''))],
                        JObj [(js ''role'', JStr (js ''system'')),
                              (js ''content'',
                               JStr (js ''Here is information from a live web search. Use it carefully in your answer:\<newline>\<newline>''
                                     @ webInfo))],
                        JObj [(js ''role'', JStr (js ''user'')),
                              (js ''content'', ?q)]]"
    by (rule mp)
  then have m3': "getMember (req_body lreq) (js ''messages'')
        = JArr [JObj [(js ''role'', JStr (js ''system'')),
                      (js ''content'', JStr (js ''You are DINX, a precise, helpful design assistant. Use web context if provided, and say when information may be out of date.''))],
                JObj [(js ''role'', JStr (js ''system'')),
                      (js ''content'',
                       JStr (js ''Here is information from a live web search. Use it carefully in your answer:\<newline>\<newline>''
                             @ ?ctx))],
                JObj [(js ''role'', JStr (js ''user'')),
                      (js ''content'', ?q)]]"
    unfolding eq by (simp only: sys truthy.simps if_False)
  from lu have lu': "req_url lreq = js ''https://api.groq.com/openai/v1/chat/completions''"
    by (simp only: ue)
  from lm have lm': "getMember (req_body lreq) (js ''model'') = JStr (js ''m'')" by (simp only: mod)
  from tr su sq lu' lm' m3'
  have "\<exists>sreq lreq.
      snd (api_chat server_js sample_env sample_runtime ?net ?b)
        = [Sent sreq, Settled sreq, Sent lreq, Settled lreq] \<and>
      req_url sreq = js ''https://api.tavily.com/search'' \<and>
      getMember (req_body sreq) (js ''query'') = ?q \<and>
      req_url lreq = js ''https://api.groq.com/openai/v1/chat/completions'' \<and>
      getMember (req_body lreq) (js ''model'') = JStr (js ''m'') \<and>
      getMember (req_body lreq) (js ''messages'')
        = JArr [JObj [(js ''role'', JStr (js ''system'')),
                      (js ''content'', JStr (js ''You are DINX, a precise, helpful design assistant. Use web context if provided, and say when information may be out of date.''))],
                JObj [(js ''role'', JStr (js ''system'')),
                      (js ''content'',
                       JStr (js ''Here is information from a live web search. Use it carefully in your answer:\<newline>\<newline>''
                             @ ?ctx))],
                JObj [(js ''role'', JStr (js ''user'')),
                      (js ''content'', ?q)]]"
    by blast
  with h2 h3 h4 h5 h6 h7 show ?thesis by blast
qed

text \<open>A request with a truthy model and a non-empty message string reaches the completion call.\<close>

lemma api_chat_reaches_llm:
  assumes "LLM_API_KEY ev = Some key" and "key \<noteq> []"
    and "truthy (getMember reqBody (js ''model''))"
    and "getMember reqBody (js ''message'') = JStr s" and "s \<noteq> []"
  shows "\<exists>webInfo tr.
           api_chat V ev rt net reqBody
             = ((case llmResult V (net (llmRequest V key (getMember reqBody (js ''model''))
                       (buildMessages (getMember reqBody (js ''system'')) webInfo (JStr s)))) of
                   None \<Rightarrow> serverError | Some res \<Rightarrow> res),
                tr @ [Sent (llmRequest V key (getMember reqBody (js ''model''))
                       (buildMessages (getMember reqBody (js ''system'')) webInfo (JStr s))),
                      Settled (llmRequest V key (getMember reqBody (js ''model''))
                       (buildMessages (getMember reqBody (js ''system'')) webInfo (JStr s)))])"
proof -
  have body: "\<not> nullish reqBody"
    using assms(4) by (rule getMember_JStr_not_nullish)
  obtain useWeb where use: "shouldUseWeb rt (getMember reqBody (js ''message'')) = Some useWeb"
    using assms(4) shouldUseWeb_string_total by auto
  have m: "truthy (getMember reqBody (js ''message''))" using assms(4,5) by simp
  obtain webInfo where "fst (searchWebWithTavily ev rt net (JStr s)) = Some webInfo"
    using search_total by blast
  then have "\<exists>w tr. (if useWeb then searchWebWithTavily ev rt net (getMember reqBody (js ''message''))
                  else (Some [], [])) = (Some w, tr)"
    using assms(4) by (cases useWeb) (auto simp: prod_eq_iff)
  then obtain w tr where
    search: "(if useWeb then searchWebWithTavily ev rt net (getMember reqBody (js ''message''))
                  else (Some [], [])) = (Some w, tr)" by blast
  let ?req = "llmRequest V key (getMember reqBody (js ''model''))
                (buildMessages (getMember reqBody (js ''system'')) w (JStr s))"
  have "api_chat V ev rt net reqBody
      = ((case llmResult V (net ?req) of None \<Rightarrow> serverError | Some res \<Rightarrow> res),
         tr @ [Sent ?req, Settled ?req])"
    by (rule api_chat_proceeds [OF body assms(1-3) m use search]) (simp add: assms(4))
  then show ?thesis by blast
qed



text \<open>The placeholder is the reply whenever the optional chain yields nothing truthy.\<close>

lemma chat_falsy_content_placeholder:
  assumes "LLM_API_KEY ev = Some key" and "key \<noteq> []"
    and "truthy (getMember reqBody (js ''model''))"
    and "getMember reqBody (js ''message'') = JStr s" and "s \<noteq> []"
    and "\<forall>req. req_url req = llm_url V \<longrightarrow> net req = Resolves llmRes"
    and "resp_ok llmRes" and "resp_json llmRes = Some data" and "\<not> nullish data"
    and "\<not> truthy (optMember (optMember (optIndex0 (getMember data (js ''choices'')))
                        (js ''message'')) (js ''content''))"
  shows "fst (api_chat V ev rt net reqBody)
           = \<lparr> status = 200,
               payload = JObj [(js ''reply'', JStr (js ''No reply from model.''))] \<rparr>"
proof -
  from api_chat_reaches_llm [OF assms(1-5)]
  obtain webInfo tr where
    "api_chat V ev rt net reqBody
       = ((case llmResult V (net (llmRequest V key (getMember reqBody (js ''model''))
                       (buildMessages (getMember reqBody (js ''system'')) webInfo (JStr s)))) of
             None \<Rightarrow> serverError | Some res \<Rightarrow> res),
          tr @ [Sent (llmRequest V key (getMember reqBody (js ''model''))
                       (buildMessages (getMember reqBody (js ''system'')) webInfo (JStr s))),
                Settled (llmRequest V key (getMember reqBody (js ''model''))
                       (buildMessages (getMember reqBody (js ''system'')) webInfo (JStr s)))])"
    by blast
  moreover have "net (llmRequest V key (getMember reqBody (js ''model''))
                       (buildMessages (getMember reqBody (js ''system'')) webInfo (JStr s)))
                 = Resolves llmRes"
    using assms(6) by (simp add: llmRequest_def)
  moreover have "replyOf data = Some (JStr (js ''No reply from model.''))"
    using assms(9,10) by (simp add: replyOf_def getProp_def)
  ultimately show ?thesis
    using assms(7,8) by (simp add: llmResult_def)
qed

text \<open>
  Claim C8 says that a successful completion response that carries no choices always
  yields the placeholder reply. A response whose body is the JSON value \<open>null\<close>
  carries none, and reading \<open>data.choices\<close> then throws: the endpoint answers 500.
\<close>

theorem chat_null_body_counterexample:
  "fst (api_chat server_js sample_env sample_runtime
          (sample_network sample_reply \<lparr> resp_ok = True, resp_text = Some (js ''null''), resp_json = Some JNull \<rparr>)
          (JObj [(js ''model'', JStr (js ''m'')), (js ''message'', JStr (js ''Hello there''))]))
     = \<lparr> status = 500, payload = JObj [(js ''error'', JStr (js ''Server error talking to LLM.''))] \<rparr>"
proof -
  let ?b = "JObj [(js ''model'', JStr (js ''m'')), (js ''message'', JStr (js ''Hello there''))]"
  let ?r = "\<lparr> resp_ok = True, resp_text = Some (js ''null''), resp_json = Some JNull \<rparr>"
  have k: "LLM_API_KEY sample_env = Some (js ''llm-key'')" "js ''llm-key'' \<noteq> []"
    by (simp_all add: sample_env_def js_def)
  have m: "truthy (getMember ?b (js ''model''))"
    "getMember ?b (js ''message'') = JStr (js ''Hello there'')" "js ''Hello there'' \<noteq> []"
    by (simp_all add: js_def)
  from api_chat_reaches_llm [OF k m, of server_js sample_runtime "sample_network sample_reply ?r"]
  obtain webInfo tr where
    "api_chat server_js sample_env sample_runtime (sample_network sample_reply ?r) ?b
       = ((case llmResult server_js (sample_network sample_reply ?r
                 (llmRequest server_js (js ''llm-key'') (getMember ?b (js ''model''))
                       (buildMessages (getMember ?b (js ''system'')) webInfo (JStr (js ''Hello there''))))) of
             None \<Rightarrow> serverError | Some res \<Rightarrow> res),
          tr @ [Sent (llmRequest server_js (js ''llm-key'') (getMember ?b (js ''model''))
                       (buildMessages (getMember ?b (js ''system'')) webInfo (JStr (js ''Hello there'')))),
                Settled (llmRequest server_js (js ''llm-key'') (getMember ?b (js ''model''))
                       (buildMessages (getMember ?b (js ''system'')) webInfo (JStr (js ''Hello there''))))])"
    by blast
  moreover have "sample_network sample_reply ?r
                 (llmRequest server_js (js ''llm-key'') (getMember ?b (js ''model''))
                       (buildMessages (getMember ?b (js ''system'')) webInfo (JStr (js ''Hello there''))))
               = Resolves ?r"
    by (simp add: sample_network_def llmRequest_def server_js_def js_def)
  moreover have "llmResult server_js (Resolves ?r) = None"
    by (simp add: llmResult_def replyOf_def getProp_def)
  ultimately show ?thesis by (simp add: serverError_def)
qed

text \<open>
  Claim C8, amended. For every chat request that reaches the completion provider,
  when the provider answers successfully with a JSON body other than \<open>null\<close> that
  carries no choices (\<open>choices\<close> absent, \<open>null\<close> or an empty list) or no message
  content in the first choice (\<open>message\<close> absent or \<open>null\<close>, or its \<open>content\<close>
  absent, \<open>null\<close> or empty), the endpoint responds with HTTP 200 and \<open>reply\<close>
  equal to the literal string \<open>No reply from model.\<close>
\<close>

theorem chat_no_reply_placeholder:
  assumes "LLM_API_KEY ev = Some key" and "key \<noteq> []"
    and "truthy (getMember reqBody (js ''model''))"
    and "getMember reqBody (js ''message'') = JStr s" and "s \<noteq> []"
    and "\<forall>req. req_url req = llm_url V \<longrightarrow> net req = Resolves llmRes"
    and "resp_ok llmRes" and "resp_json llmRes = Some data" and "\<not> nullish data"
    and "getMember data (js ''choices'') = JUndefined \<or>
         getMember data (js ''choices'') = JNull \<or>
         getMember data (js ''choices'') = JArr [] \<or>
         (\<exists>choice rest. getMember data (js ''choices'') = JArr (choice # rest) \<and>
            (getMember choice (js ''message'') = JUndefined \<or>
             getMember choice (js ''message'') = JNull \<or>
             (\<exists>fields. getMember choice (js ''message'') = JObj fields \<and>
                (map_of fields (js ''content'') = None \<or>
                 map_of fields (js ''content'') = Some JNull \<or>
                 map_of fields (js ''content'') = Some (JStr [])))))"
  shows "fst (api_chat V ev rt net reqBody)
           = \<lparr> status = 200,
               payload = JObj [(js ''reply'', JStr (js ''No reply from model.''))] \<rparr>"
proof -
  have "\<not> truthy (optMember (optMember (optIndex0 (getMember data (js ''choices'')))
                        (js ''message'')) (js ''content''))"
    using assms(10) by (auto simp: optMember_def optIndex0_def)
  from chat_falsy_content_placeholder [OF assms(1-9) this] show ?thesis .
qed

theorem chat_no_reply_placeholder_witness:
  "LLM_API_KEY sample_env = Some (js ''llm-key'') \<and> js ''llm-key'' \<noteq> [] \<and>
   truthy (getMember (JObj [(js ''model'', JStr (js ''m'')), (js ''message'', JStr (js ''Hello there''))]) (js ''model'')) \<and>
   getMember (JObj [(js ''model'', JStr (js ''m'')), (js ''message'', JStr (js ''Hello there''))]) (js ''message'')
     = JStr (js ''Hello there'') \<and>
   js ''Hello there'' \<noteq> [] \<and>
   sample_network sample_reply \<lparr> resp_ok = True, resp_text = None, resp_json = Some (JObj []) \<rparr>
       (llmRequest server_js (js ''llm-key'') (JStr (js ''m'')) [])
     = Resolves \<lparr> resp_ok = True, resp_text = None, resp_json = Some (JObj []) \<rparr> \<and>
   \<not> nullish (JObj []) \<and>
   getMember (JObj []) (js ''choices'') = JUndefined \<and>
   fst (api_chat server_js sample_env sample_runtime
          (sample_network sample_reply \<lparr> resp_ok = True, resp_text = None, resp_json = Some (JObj []) \<rparr>)
          (JObj [(js ''model'', JStr (js ''m'')), (js ''message'', JStr (js ''Hello there''))]))
     = \<lparr> status = 200, payload = JObj [(js ''reply'', JStr (js ''No reply from model.''))] \<rparr> \<and>
   getMember (JObj [(js ''choices'', JArr [])]) (js ''choices'') = JArr [] \<and>
   fst (api_chat server_js sample_env sample_runtime
          (sample_network sample_reply
             \<lparr> resp_ok = True, resp_text = None, resp_json = Some (JObj [(js ''choices'', JArr [])]) \<rparr>)
          (JObj [(js ''model'', JStr (js ''m'')), (js ''message'', JStr (js ''Hello there''))]))
     = \<lparr> status = 200, payload = JObj [(js ''reply'', JStr (js ''No reply from model.''))] \<rparr> \<and>
   getMember (JObj [(js ''choices'', JArr [JObj [(js ''message'', JObj [(js ''role'', JStr (js ''assistant''))])]])])
       (js ''choices'')
     = JArr (JObj [(js ''message'', JObj [(js ''role'', JStr (js ''assistant''))])] # []) \<and>
   getMember (JObj [(js ''message'', JObj [(js ''role'', JStr (js ''assistant''))])]) (js ''message'')
     = JObj [(js ''role'', JStr (js ''assistant''))] \<and>
   map_of [(js ''role'', JStr (js ''assistant''))] (js ''content'') = None \<and>
   fst (api_chat server_js sample_env sample_runtime
          (sample_network sample_reply
             \<lparr> resp_ok = True, resp_text = None,
               resp_json = Some (JObj [(js ''choices'',
                   JArr [JObj [(js ''message'', JObj [(js ''role'', JStr (js ''assistant''))])]])]) \<rparr>)
          (JObj [(js ''model'', JStr (js ''m'')), (js ''message'', JStr (js ''Hello there''))]))
     = \<lparr> status = 200, payload = JObj [(js ''reply'', JStr (js ''No reply from model.''))] \<rparr>"
proof -
  let ?b = "JObj [(js ''model'', JStr (js ''m'')), (js ''message'', JStr (js ''Hello there''))]"
  let ?d1 = "JObj []"
  let ?d2 = "JObj [(js ''choices'', JArr [])]"
  let ?c = "JObj [(js ''message'', JObj [(js ''role'', JStr (js ''assistant''))])]"
  let ?d3 = "JObj [(js ''choices'', JArr [?c])]"
  let ?r1 = "\<lparr> resp_ok = True, resp_text = None, resp_json = Some ?d1 \<rparr>"
  let ?r2 = "\<lparr> resp_ok = True, resp_text = None, resp_json = Some ?d2 \<rparr>"
  let ?r3 = "\<lparr> resp_ok = True, resp_text = None, resp_json = Some ?d3 \<rparr>"
  have h2: "LLM_API_KEY sample_env = Some (js ''llm-key'')" by (simp add: sample_env_def)
  have h3: "js ''llm-key'' \<noteq> []" by (simp add: js_def)
  have h4: "truthy (getMember ?b (js ''model''))" by (simp add: js_def)
  have h5: "getMember ?b (js ''message'') = JStr (js ''Hello there'')" by (simp add: js_def)
  have h6: "js ''Hello there'' \<noteq> []" by (simp add: js_def)
  have n: "\<forall>req. req_url req = llm_url server_js \<longrightarrow> sample_network sample_reply r req = Resolves r" for r
    by (simp add: sample_network_def server_js_def js_def)
  have h7i: "sample_network sample_reply ?r1 (llmRequest server_js (js ''llm-key'') (JStr (js ''m'')) [])
      = Resolves ?r1"
    using n [of ?r1] by (simp add: llmRequest_def)
  have nn: "\<not> nullish ?d1" "\<not> nullish ?d2" "\<not> nullish ?d3" by simp_all
  have c1: "getMember ?d1 (js ''choices'') = JUndefined" by simp
  have c2: "getMember ?d2 (js ''choices'') = JArr []" by simp
  have c3: "getMember ?d3 (js ''choices'') = JArr (?c # [])" by simp
  have c3m: "getMember ?c (js ''message'') = JObj [(js ''role'', JStr (js ''assistant''))]" by simp
  have c3c: "map_of [(js ''role'', JStr (js ''assistant''))] (js ''content'') = None"
    by (simp add: js_def)
  have a: "fst (api_chat server_js sample_env sample_runtime (sample_network sample_reply ?r1) ?b)
     = \<lparr> status = 200, payload = JObj [(js ''reply'', JStr (js ''No reply from model.''))] \<rparr>"
    by (rule chat_no_reply_placeholder[OF h2 h3 h4 h5 h6 n [of ?r1] _ _ nn(1)]) (simp_all add: c1)
  have b: "fst (api_chat server_js sample_env sample_runtime (sample_network sample_reply ?r2) ?b)
     = \<lparr> status = 200, payload = JObj [(js ''reply'', JStr (js ''No reply from model.''))] \<rparr>"
    by (rule chat_no_reply_placeholder[OF h2 h3 h4 h5 h6 n [of ?r2] _ _ nn(2)]) (simp_all add: c2)
  have d3cond: "getMember ?d3 (js ''choices'') = JUndefined \<or>
         getMember ?d3 (js ''choices'') = JNull \<or>
         getMember ?d3 (js ''choices'') = JArr [] \<or>
         (\<exists>choice rest. getMember ?d3 (js ''choices'') = JArr (choice # rest) \<and>
            (getMember choice (js ''message'') = JUndefined \<or>
             getMember choice (js ''message'') = JNull \<or>
             (\<exists>fields. getMember choice (js ''message'') = JObj fields \<and>
                (map_of fields (js ''content'') = None \<or>
                 map_of fields (js ''content'') = Some JNull \<or>
                 map_of fields (js ''content'') = Some (JStr [])))))"
    using c3 c3m c3c by blast
  have ok3: "resp_ok ?r3" "resp_json ?r3 = Some ?d3" by simp_all
  note c = chat_no_reply_placeholder[OF h2 h3 h4 h5 h6 n [of ?r3] ok3 nn(3) d3cond, of sample_runtime]
  from h2 h3 h4 h5 h6 h7i nn(1) c1 a c2 b c3 c3m c3c c show ?thesis by blast
qed

text \<open>
  Claim C7 says that every chat request in which \<open>model\<close> or \<open>message\<close> is missing
  gets HTTP 400. The handler tests the completion credential first: without it, a
  request with no message gets HTTP 500.
\<close>

theorem chat_missing_message_without_llm_key_counterexample:
  "getMember (JObj [(js ''model'', JStr (js ''m''))]) (js ''message'') = JUndefined \<and>
   status (fst (api_chat server_js \<lparr> LLM_API_KEY = None, TAVILY_API_KEY = Some (js ''search-key'') \<rparr>
                  sample_runtime (sample_network sample_reply sample_reply)
                  (JObj [(js ''model'', JStr (js ''m''))])))
     = 500"
  by (simp add: api_chat_def chatTry_def js_def)

text \<open>
  Claim C7, amended. For every chat request with a parsed body in which \<open>model\<close> or
  \<open>message\<close> is missing or empty (or otherwise falsy), the endpoint makes no
  outbound call, neither to the search provider nor to the completion provider, and,
  when the completion credential is configured, responds with HTTP 400.
\<close>

theorem chat_missing_fields:
  assumes "\<not> nullish reqBody"
    and "\<not> truthy (getMember reqBody (js ''model'')) \<or> \<not> truthy (getMember reqBody (js ''message''))"
  shows "snd (api_chat V ev rt net reqBody) = [] \<and>
         (\<forall>key. LLM_API_KEY ev = Some key \<and> key \<noteq> [] \<longrightarrow>
            fst (api_chat V ev rt net reqBody)
              = \<lparr> status = 400,
                  payload = JObj [(js ''error'', JStr (js ''model and message are required.''))] \<rparr>)"
proof (intro conjI allI impI)
  show "snd (api_chat V ev rt net reqBody) = []"
  proof (cases "LLM_API_KEY ev = None \<or> LLM_API_KEY ev = Some []")
    case True
    then show ?thesis by (rule api_chat_no_key)
  next
    case False
    then obtain key where "LLM_API_KEY ev = Some key" "key \<noteq> []" by auto
    from api_chat_invalid [OF assms(1) this assms(2)] show ?thesis by simp
  qed
next
  fix key assume "LLM_API_KEY ev = Some key \<and> key \<noteq> []"
  then have "LLM_API_KEY ev = Some key" "key \<noteq> []" by simp_all
  from api_chat_invalid [OF assms(1) this assms(2)]
  show "fst (api_chat V ev rt net reqBody)
      = \<lparr> status = 400,
          payload = JObj [(js ''error'', JStr (js ''model and message are required.''))] \<rparr>"
    by simp
qed

theorem chat_missing_fields_witness:
  "\<not> nullish (JObj [(js ''model'', JStr (js ''m'')), (js ''message'', JStr [])]) \<and>
   \<not> truthy (getMember (JObj [(js ''model'', JStr (js ''m'')), (js ''message'', JStr [])]) (js ''message'')) \<and>
   LLM_API_KEY sample_env = Some (js ''llm-key'') \<and> js ''llm-key'' \<noteq> [] \<and>
   api_chat server_js sample_env sample_runtime (sample_network sample_reply sample_reply)
       (JObj [(js ''model'', JStr (js ''m'')), (js ''message'', JStr [])])
     = (\<lparr> status = 400,
          payload = JObj [(js ''error'', JStr (js ''model and message are required.''))] \<rparr>, [])"
proof -
  let ?b = "JObj [(js ''model'', JStr (js ''m'')), (js ''message'', JStr [])]"
  have h1: "\<not> nullish ?b" by simp
  have h2: "\<not> truthy (getMember ?b (js ''model'')) \<or> \<not> truthy (getMember ?b (js ''message''))"
    by (simp add: js_def)
  have h2m: "\<not> truthy (getMember ?b (js ''message''))" by (simp add: js_def)
  have k: "LLM_API_KEY sample_env = Some (js ''llm-key'') \<and> js ''llm-key'' \<noteq> []"
    by (simp add: sample_env_def js_def)
  from chat_missing_fields [OF h1 h2, of server_js sample_env sample_runtime
      "sample_network sample_reply sample_reply"] k
  have "snd (api_chat server_js sample_env sample_runtime (sample_network sample_reply sample_reply) ?b) = []"
    and "fst (api_chat server_js sample_env sample_runtime (sample_network sample_reply sample_reply) ?b)
       = \<lparr> status = 400,
           payload = JObj [(js ''error'', JStr (js ''model and message are required.''))] \<rparr>"
    by blast+
  then have "api_chat server_js sample_env sample_runtime (sample_network sample_reply sample_reply) ?b
     = (\<lparr> status = 400,
          payload = JObj [(js ''error'', JStr (js ''model and message are required.''))] \<rparr>, [])"
    by (simp add: prod_eq_iff)
  with h1 h2m k show ?thesis by blast
qed

lemma chatTry_system_empty_or_absent:
  assumes "getMember b1 (js ''system'') = JStr []" and "getMember b2 (js ''system'') = JUndefined"
    and "\<not> nullish b2"
    and "getMember b1 (js ''model'') = getMember b2 (js ''model'')"
    and "getMember b1 (js ''message'') = getMember b2 (js ''message'')"
  shows "chatTry V ev rt net b1 = chatTry V ev rt net b2"
proof -
  have "\<not> nullish b1" using assms(1) by (rule getMember_JStr_not_nullish)
  then have n1: "nullish b1 = False" by simp
  have n2: "nullish b2 = False" using assms(3) by simp
  have b: "buildMessages (JStr []) w msg = buildMessages JUndefined w msg" for w msg
    by (simp add: buildMessages_def)
  show ?thesis
    by (simp only: chatTry_def Let_def assms(1,2,4,5) b n1 n2)
qed

text \<open>
  Claim C9 says the override of the system prompt is applied only when \<open>system\<close> is
  a non-empty string. The code tests \<open>system || default\<close>: a request with
  \<open>system: 5\<close> sends 5 as the content of the first message.
\<close>

theorem system_number_counterexample:
  "snd (api_chat server_js sample_env sample_runtime (sample_network sample_reply sample_reply)
          (JObj [(js ''model'', JStr (js ''m'')), (js ''system'', JNum 5),
                 (js ''message'', JStr (js ''Hello there''))]))
     = [Sent \<lparr> req_url = js ''https://api.groq.com/openai/v1/chat/completions'',
               req_method = js ''POST'',
               req_headers = [(js ''Content-Type'', js ''application/json''),
                              (js ''Authorization'', js ''Bearer llm-key'')],
               req_body = JObj [(js ''model'', JStr (js ''m'')),
                                (js ''messages'',
                                 JArr [JObj [(js ''role'', JStr (js ''system'')), (js ''content'', JNum 5)],
                                       JObj [(js ''role'', JStr (js ''user'')),
                                             (js ''content'', JStr (js ''Hello there''))]])] \<rparr>,
        Settled \<lparr> req_url = js ''https://api.groq.com/openai/v1/chat/completions'',
               req_method = js ''POST'',
               req_headers = [(js ''Content-Type'', js ''application/json''),
                              (js ''Authorization'', js ''Bearer llm-key'')],
               req_body = JObj [(js ''model'', JStr (js ''m'')),
                                (js ''messages'',
                                 JArr [JObj [(js ''role'', JStr (js ''system'')), (js ''content'', JNum 5)],
                                       JObj [(js ''role'', JStr (js ''user'')),
                                             (js ''content'', JStr (js ''Hello there''))]])] \<rparr>]"
proof -
  let ?b = "JObj [(js ''model'', JStr (js ''m'')), (js ''system'', JNum 5),
                 (js ''message'', JStr (js ''Hello there''))]"
  let ?net = "sample_network sample_reply sample_reply"
  have body: "\<not> nullish ?b" by simp
  have k: "LLM_API_KEY sample_env = Some (js ''llm-key'')" "js ''llm-key'' \<noteq> []"
    by (simp_all add: sample_env_def js_def)
  have g: "getMember ?b (js ''model'') = JStr (js ''m'')" "getMember ?b (js ''system'') = JNum 5"
    "getMember ?b (js ''message'') = JStr (js ''Hello there'')"
    by (simp_all add: js_def)
  have m: "truthy (getMember ?b (js ''model''))" "truthy (getMember ?b (js ''message''))"
    by (simp_all add: js_def)
  have use: "shouldUseWeb sample_runtime (getMember ?b (js ''message'')) = Some False"
    unfolding g
    by (simp add: shouldUseWeb_def toLowerCase_def lowerAt_def asciiLower_def js_def
        triggers_def sample_runtime_def upt_rec)
  let ?req = "llmRequest server_js (js ''llm-key'') (getMember ?b (js ''model''))
                (buildMessages (getMember ?b (js ''system'')) [] (getMember ?b (js ''message'')))"
  have "api_chat server_js sample_env sample_runtime ?net ?b
      = ((case llmResult server_js (?net ?req) of None \<Rightarrow> serverError | Some res \<Rightarrow> res),
         [] @ [Sent ?req, Settled ?req])"
    by (rule api_chat_proceeds [OF body k m use]) simp_all
  then have "snd (api_chat server_js sample_env sample_runtime ?net ?b) = [Sent ?req, Settled ?req]"
    by simp
  moreover have "?req = \<lparr> req_url = js ''https://api.groq.com/openai/v1/chat/completions'',
               req_method = js ''POST'',
               req_headers = [(js ''Content-Type'', js ''application/json''),
                              (js ''Authorization'', js ''Bearer llm-key'')],
               req_body = JObj [(js ''model'', JStr (js ''m'')),
                                (js ''messages'',
                                 JArr [JObj [(js ''role'', JStr (js ''system'')), (js ''content'', JNum 5)],
                                       JObj [(js ''role'', JStr (js ''user'')),
                                             (js ''content'', JStr (js ''Hello there''))]])] \<rparr>"
    unfolding g by (simp add: llmRequest_def server_js_def buildMessages_def chatMessage_def js_def)
  ultimately show ?thesis by (simp only:)
qed

text \<open>
  Claim C9, amended. A chat request that supplies \<open>system\<close> as the empty string, at
  any position of the body, is handled exactly as the same request without
  \<open>system\<close>: same response, same outbound calls, for either source file. The
  \<open>messages\<close> list of its completion request starts with
  \<open>{role: system, content: default prompt}\<close>. The override is applied exactly when
  \<open>system\<close> is truthy: the first message then carries \<open>system\<close> itself.
\<close>

theorem empty_system_uses_default:
  "(getMember b1 (js ''system'') = JStr [] \<and> getMember b2 (js ''system'') = JUndefined \<and>
    \<not> nullish b2 \<and>
    getMember b1 (js ''model'') = getMember b2 (js ''model'') \<and>
    getMember b1 (js ''message'') = getMember b2 (js ''message'')
      \<longrightarrow> api_chat V ev rt net b1 = api_chat V ev rt net b2) \<and>
   (LLM_API_KEY ev = Some key \<and> key \<noteq> [] \<and>
    truthy (getMember reqBody (js ''model'')) \<and>
    getMember reqBody (js ''message'') = JStr s \<and> s \<noteq> []
      \<longrightarrow> (\<exists>tr req rest.
             snd (api_chat V ev rt net reqBody) = tr @ [Sent req, Settled req] \<and>
             req_url req = llm_url V \<and>
             getMember (req_body req) (js ''messages'')
               = JArr (JObj [(js ''role'', JStr (js ''system'')),
                             (js ''content'',
                              if truthy (getMember reqBody (js ''system''))
                              then getMember reqBody (js ''system'')
                              else JStr (js ''You are DINX, a precise, helpful design assistant. Use web context if provided, and say when information may be out of date.''))]
                       # rest) \<and>
             (getMember reqBody (js ''system'') = JStr [] \<or>
              getMember reqBody (js ''system'') = JUndefined
                \<longrightarrow> getMember (req_body req) (js ''messages'')
                      = JArr (JObj [(js ''role'', JStr (js ''system'')),
                                    (js ''content'',
                                     JStr (js ''You are DINX, a precise, helpful design assistant. Use web context if provided, and say when information may be out of date.''))]
                              # rest))))"
proof (intro conjI impI)
  assume "getMember b1 (js ''system'') = JStr [] \<and> getMember b2 (js ''system'') = JUndefined \<and>
    \<not> nullish b2 \<and>
    getMember b1 (js ''model'') = getMember b2 (js ''model'') \<and>
    getMember b1 (js ''message'') = getMember b2 (js ''message'')"
  then have "chatTry V ev rt net b1 = chatTry V ev rt net b2"
    by (intro chatTry_system_empty_or_absent) simp_all
  then show "api_chat V ev rt net b1 = api_chat V ev rt net b2"
    by (simp only: api_chat_def)
next
  let ?default = "JStr (js ''You are DINX, a precise, helpful design assistant. Use web context if provided, and say when information may be out of date.'')"
  assume h: "LLM_API_KEY ev = Some key \<and> key \<noteq> [] \<and>
    truthy (getMember reqBody (js ''model'')) \<and>
    getMember reqBody (js ''message'') = JStr s \<and> s \<noteq> []"
  then have "LLM_API_KEY ev = Some key" "key \<noteq> []" "truthy (getMember reqBody (js ''model''))"
    "getMember reqBody (js ''message'') = JStr s" "s \<noteq> []" by simp_all
  from api_chat_sends [OF this, of rt net V]
  obtain webInfo tr req where
    run: "api_chat V ev rt net reqBody
           = ((case llmResult V (net req) of None \<Rightarrow> serverError | Some res \<Rightarrow> res),
              tr @ [Sent req, Settled req])"
    and url: "req_url req = llm_url V"
    and msgs: "getMember (req_body req) (js ''messages'')
           = JArr (JObj [(js ''role'', JStr (js ''system'')),
                         (js ''content'',
                          if truthy (getMember reqBody (js ''system''))
                          then getMember reqBody (js ''system'') else ?default)]
                   # (if webInfo \<noteq> []
                      then [JObj [(js ''role'', JStr (js ''system'')),
                                  (js ''content'',
                                   JStr (js ''Here is information from a live web search. Use it carefully in your answer:\<newline>\<newline>''
                                         @ webInfo))]]
                      else [])
                   @ [JObj [(js ''role'', JStr (js ''user'')), (js ''content'', JStr s)]])"
    by blast
  let ?rest = "(if webInfo \<noteq> []
                      then [JObj [(js ''role'', JStr (js ''system'')),
                                  (js ''content'',
                                   JStr (js ''Here is information from a live web search. Use it carefully in your answer:\<newline>\<newline>''
                                         @ webInfo))]]
                      else [])
                   @ [JObj [(js ''role'', JStr (js ''user'')), (js ''content'', JStr s)]]"
  from run have t: "snd (api_chat V ev rt net reqBody) = tr @ [Sent req, Settled req]" by simp
  have d: "getMember reqBody (js ''system'') = JStr [] \<or> getMember reqBody (js ''system'') = JUndefined
      \<longrightarrow> getMember (req_body req) (js ''messages'')
            = JArr (JObj [(js ''role'', JStr (js ''system'')), (js ''content'', ?default)] # ?rest)"
    using msgs by auto
  from t url msgs d
  show "\<exists>tr req rest.
             snd (api_chat V ev rt net reqBody) = tr @ [Sent req, Settled req] \<and>
             req_url req = llm_url V \<and>
             getMember (req_body req) (js ''messages'')
               = JArr (JObj [(js ''role'', JStr (js ''system'')),
                             (js ''content'',
                              if truthy (getMember reqBody (js ''system''))
                              then getMember reqBody (js ''system'') else ?default)]
                       # rest) \<and>
             (getMember reqBody (js ''system'') = JStr [] \<or>
              getMember reqBody (js ''system'') = JUndefined
                \<longrightarrow> getMember (req_body req) (js ''messages'')
                      = JArr (JObj [(js ''role'', JStr (js ''system'')), (js ''content'', ?default)]
                              # rest))"
    by blast
qed

theorem empty_system_uses_default_witness:
  "getMember (JObj [(js ''model'', JStr (js ''m'')), (js ''system'', JStr []),
                    (js ''message'', JStr (js ''Hello there''))]) (js ''system'') = JStr [] \<and>
   getMember (JObj [(js ''model'', JStr (js ''m'')), (js ''message'', JStr (js ''Hello there''))])
       (js ''system'') = JUndefined \<and>
   api_chat server_js sample_env sample_runtime (sample_network sample_reply sample_reply)
       (JObj [(js ''model'', JStr (js ''m'')), (js ''system'', JStr []),
              (js ''message'', JStr (js ''Hello there''))])
     = api_chat server_js sample_env sample_runtime (sample_network sample_reply sample_reply)
       (JObj [(js ''model'', JStr (js ''m'')), (js ''message'', JStr (js ''Hello there''))]) \<and>
   LLM_API_KEY sample_env = Some (js ''llm-key'') \<and> js ''llm-key'' \<noteq> [] \<and>
   (\<exists>tr req rest.
      snd (api_chat server_js sample_env sample_runtime (sample_network sample_reply sample_reply)
             (JObj [(js ''model'', JStr (js ''m'')), (js ''system'', JStr []),
                    (js ''message'', JStr (js ''Hello there''))]))
        = tr @ [Sent req, Settled req] \<and>
      req_url req = js ''https://api.groq.com/openai/v1/chat/completions'' \<and>
      getMember (req_body req) (js ''messages'')
        = JArr (JObj [(js ''role'', JStr (js ''system'')),
                      (js ''content'',
                       JStr (js ''You are DINX, a precise, helpful design assistant. Use web context if provided, and say when information may be out of date.''))]
                # rest))"
proof -
  let ?b1 = "JObj [(js ''model'', JStr (js ''m'')), (js ''system'', JStr []),
                    (js ''message'', JStr (js ''Hello there''))]"
  let ?b2 = "JObj [(js ''model'', JStr (js ''m'')), (js ''message'', JStr (js ''Hello there''))]"
  let ?net = "sample_network sample_reply sample_reply"
  have g1: "getMember ?b1 (js ''system'') = JStr []" by (simp add: js_def)
  have g2: "getMember ?b2 (js ''system'') = JUndefined" by (simp add: js_def)
  have n2: "\<not> nullish ?b2" by simp
  have g3: "getMember ?b1 (js ''model'') = getMember ?b2 (js ''model'')" by (simp add: js_def)
  have g4: "getMember ?b1 (js ''message'') = getMember ?b2 (js ''message'')" by (simp add: js_def)
  have k: "LLM_API_KEY sample_env = Some (js ''llm-key'')" "js ''llm-key'' \<noteq> []"
    by (simp_all add: sample_env_def js_def)
  have m: "truthy (getMember ?b1 (js ''model''))"
    "getMember ?b1 (js ''message'') = JStr (js ''Hello there'')" "js ''Hello there'' \<noteq> []"
    by (simp_all add: js_def)
  have ue: "llm_url server_js = js ''https://api.groq.com/openai/v1/chat/completions''"
    by (simp add: server_js_def)
  note t = empty_system_uses_default[of ?b1 ?b2 server_js sample_env sample_runtime ?net
      "js ''llm-key''" ?b1 "js ''Hello there''"]
  from t g1 g2 n2 g3 g4
  have e: "api_chat server_js sample_env sample_runtime ?net ?b1
      = api_chat server_js sample_env sample_runtime ?net ?b2" by blast
  from t k m g1
  have "\<exists>tr req rest.
      snd (api_chat server_js sample_env sample_runtime ?net ?b1) = tr @ [Sent req, Settled req] \<and>
      req_url req = llm_url server_js \<and>
      getMember (req_body req) (js ''messages'')
        = JArr (JObj [(js ''role'', JStr (js ''system'')),
                      (js ''content'',
                       JStr (js ''You are DINX, a precise, helpful design assistant. Use web context if provided, and say when information may be out of date.''))]
                # rest)"
    by blast
  then have s: "\<exists>tr req rest.
      snd (api_chat server_js sample_env sample_runtime ?net ?b1) = tr @ [Sent req, Settled req] \<and>
      req_url req = js ''https://api.groq.com/openai/v1/chat/completions'' \<and>
      getMember (req_body req) (js ''messages'')
        = JArr (JObj [(js ''role'', JStr (js ''system'')),
                      (js ''content'',
                       JStr (js ''You are DINX, a precise, helpful design assistant. Use web context if provided, and say when information may be out of date.''))]
                # rest)"
    unfolding ue .
  from g1 g2 e k s show ?thesis by blast
qed

section \<open>The two source files\<close>

text \<open>
  Claim C10. \<open>shouldUseWeb\<close> of the second source file returns the same result as
  \<open>shouldUseWeb\<close> of \<open>server.js\<close> for every message, and the formatting of the
  search results in \<open>searchWebWithTavily\<close> yields the same context string for every
  provider response in both files; so does the whole of \<open>searchWebWithTavily\<close>.
\<close>

theorem part_000_same_functions:
  "(\<forall>message. shouldUseWeb_part_000 rt message = shouldUseWeb rt message) \<and>
   (\<forall>data. formatContext_part_000 rt data = formatContext rt data) \<and>
   (\<forall>ev net query. searchWebWithTavily_part_000 ev rt net query = searchWebWithTavily ev rt net query)"
proof -
  have r: "renderResult_part_000 rt = renderResult rt"
    by (rule ext) (simp only: renderResult_part_000_def renderResult_def)
  have f: "formatContext_part_000 rt data = formatContext rt data" for data
    by (simp only: formatContext_part_000_def formatContext_def r)
  have s: "searchTry_part_000 rt net key query = searchTry rt net key query" for net key query
    by (simp only: searchTry_part_000_def searchTry_def f)
  have "shouldUseWeb_part_000 rt message = shouldUseWeb rt message" for message
    by (rule shouldUseWeb_part_000_eq)
  moreover have "searchWebWithTavily_part_000 ev rt net query = searchWebWithTavily ev rt net query"
    for ev net query
    by (simp only: searchWebWithTavily_part_000_def searchWebWithTavily_def s)
  ultimately show ?thesis using f by blast
qed

end
